theory Spec2Isabelle
  imports Main "HOL-Library.Sublist"
begin

section \<open>Universal MCP client: the tool-calling loop of \<open>src/client/client.py\<close>\<close>

text \<open>
  The development embeds the class \<open>UniversalMCPClient\<close>: the two query methods
  \<open>_process_anthropic_query\<close> and \<open>_process_openai_query\<close>, their dispatcher
  \<open>process_query\<close>, the constructor and the body of \<open>chat_loop\<close>.

  The provider SDKs, the tool-hosting session, \<open>json.loads\<close>, \<open>os.environ\<close> and Python's
  value formatting are external to the repository. They are parameters of the model,
  collected in the record \<open>env\<close>; the external calls thread an abstract world state \<open>'w\<close>
  so that an answer may depend on everything that happened before it.
  Strings are lists of ASCII characters.
\<close>

subsection \<open>Values, exceptions and strings\<close>

datatype json =
    JNull
  | JBool bool
  | JNum int
  | JStr string
  | JArr "json list"
  | JObj "(string \<times> json) list"

text \<open>
  An exception is kept with its \<open>str(e)\<close>. \<open>ExternalError\<close> stands for whatever an
  external collaborator (provider SDK, tool session) raises.
\<close>

datatype exn =
    ValueError string
  | AttributeError string
  | IndexError string
  | ExternalError string

fun str_exn :: "exn \<Rightarrow> string" where
  "str_exn (ValueError m) = m"
| "str_exn (AttributeError m) = m"
| "str_exn (IndexError m) = m"
| "str_exn (ExternalError m) = m"

definition newline :: char where
  "newline = CHR 0x0A"

text \<open>\<open>"\n".join(xs)\<close>\<close>

fun join_nl :: "string list \<Rightarrow> string" where
  "join_nl [] = []"
| "join_nl [x] = x"
| "join_nl (x # y # ys) = x @ newline # join_nl (y # ys)"

text \<open>\<open>str.isspace\<close>, \<open>str.strip\<close>, \<open>str.lower\<close>, \<open>str.startswith\<close> and \<open>str.split(sep)\<close> on ASCII.\<close>

definition is_space :: "char \<Rightarrow> bool" where
  "is_space ch = (ch \<in> set [CHR '' '', CHR 0x09, CHR 0x0A, CHR 0x0B, CHR 0x0C, CHR 0x0D,
                            CHR 0x1C, CHR 0x1D, CHR 0x1E, CHR 0x1F])"

definition strip :: "string \<Rightarrow> string" where
  "strip s = rev (dropWhile is_space (rev (dropWhile is_space s)))"

definition lower_char :: "char \<Rightarrow> char" where
  "lower_char ch =
     (let n = (of_char ch :: nat) in if 65 \<le> n \<and> n \<le> 90 then char_of (n + 32) else ch)"

definition lower :: "string \<Rightarrow> string" where
  "lower s = map lower_char s"

definition startswith :: "string \<Rightarrow> string \<Rightarrow> bool" where
  "startswith s p = (take (length p) s = p)"

fun split :: "char \<Rightarrow> string \<Rightarrow> string list" where
  "split sep [] = [[]]"
| "split sep (ch # s) =
     (if ch = sep then [] # split sep s
      else (case split sep s of
              [] \<Rightarrow> [[ch]]
            | p # ps \<Rightarrow> (ch # p) # ps))"

subsection \<open>Providers, model tables and the client object\<close>

datatype ModelProvider = ANTHROPIC | OPENAI

definition ANTHROPIC_MODELS :: "(string \<times> string) list" where
  "ANTHROPIC_MODELS =
     [(''claude-3-opus'', ''claude-3-opus-latest''),
      (''claude-3-sonnet'', ''claude-3-7-sonnet-latest''),
      (''claude-3-haiku'', ''claude-3-5-haiku-latest'')]"

definition OPENAI_MODELS :: "(string \<times> string) list" where
  "OPENAI_MODELS =
     [(''gpt-4-turbo'', ''gpt-4-turbo''),
      (''gpt-4'', ''gpt-4o''),
      (''gpt-3.5-turbo'', ''gpt-3.5-turbo'')]"

text \<open>
  The attributes of \<open>UniversalMCPClient\<close>. The session is an object of the tool-hosting
  library; the model keeps its identity, a number. An SDK client (\<open>Anthropic(api_key=...)\<close>,
  \<open>OpenAI(api_key=...)\<close>) is identified by the key it was built with.
\<close>

record client =
  session :: "nat option"
  server_path :: "string option"
  provider :: ModelProvider
  model_name :: "string option"
  full_model_name :: "string option"
  anthropic :: "string option"
  openai :: "string option"

subsection \<open>Tool descriptors and their wire shapes\<close>

text \<open>A tool as the session lists it: \<open>tool.name\<close>, \<open>tool.description\<close> (optional), \<open>tool.inputSchema\<close>.\<close>

record tool =
  name :: string
  description :: "string option"
  inputSchema :: json

text \<open>\<open>x or ""\<close> for an optional string \<open>x\<close>\<close>

definition or_empty :: "string option \<Rightarrow> string" where
  "or_empty d = (case d of None \<Rightarrow> [] | Some t \<Rightarrow> t)"

text \<open>Provider A: \<open>{"name", "description", "input_schema"}\<close>.\<close>

datatype a_wire_tool =
  AWireTool (a_name: string) (a_description: string) (a_input_schema: json)

text \<open>Provider B: \<open>{"type": "function", "function": {"name", "description", "parameters"}}\<close>.\<close>

datatype o_function =
  OFunction (f_name: string) (f_description: string) (f_parameters: json)

datatype o_wire_tool =
  OWireTool (o_type: string) (o_function: o_function)

definition anthropic_tools :: "tool list \<Rightarrow> a_wire_tool list" where
  "anthropic_tools tools =
     map (\<lambda>t. AWireTool (name t) (or_empty (description t)) (inputSchema t)) tools"

definition openai_tools :: "tool list \<Rightarrow> o_wire_tool list" where
  "openai_tools tools =
     map (\<lambda>t. OWireTool ''function''
                 (OFunction (name t) (or_empty (description t)) (inputSchema t)))
         tools"

text \<open>Reading a descriptor back off a wire entry.\<close>

definition read_anthropic_tool :: "a_wire_tool \<Rightarrow> tool" where
  "read_anthropic_tool wt =
     \<lparr>name = a_name wt, description = Some (a_description wt), inputSchema = a_input_schema wt\<rparr>"

definition read_openai_tool :: "o_wire_tool \<Rightarrow> tool" where
  "read_openai_tool wt =
     \<lparr>name = f_name (o_function wt), description = Some (f_description (o_function wt)),
      inputSchema = f_parameters (o_function wt)\<rparr>"

text \<open>The descriptor with an absent description replaced by the empty string.\<close>

definition with_default_description :: "tool \<Rightarrow> tool" where
  "with_default_description t = t\<lparr>description := Some (or_empty (description t))\<rparr>"

subsection \<open>Messages of the two wire formats\<close>

text \<open>
  Provider A answers with a list of content blocks. \<open>content.type\<close> is \<open>'text'\<close>,
  \<open>'tool_use'\<close> (with \<open>id\<close>, \<open>name\<close>, \<open>input\<close>) or something else, which the loop passes over.
\<close>

datatype block =
    TextBlock string
  | ToolUseBlock (tu_id: string) (tu_name: string) (tu_input: json)
  | OtherBlock string

text \<open>The messages sent to provider A, as the SDK serialises them at the time of the call.\<close>

datatype a_message =
    AUserText string
  | AAssistant "block list"
  | AToolResult string string

text \<open>
  The entries of the Python list \<open>messages\<close> in \<open>_process_anthropic_query\<close>. Every
  assistant entry holds a reference to the one list object \<open>assistant_message_content\<close>,
  which the loop keeps appending to: such an entry always shows the current content
  of that list. \<open>RAssistantShared\<close> is that reference; \<open>resolve\<close> reads it.
\<close>

datatype a_entry =
    RUserText string
  | RAssistantShared
  | RToolResult string string

fun resolve_entry :: "block list \<Rightarrow> a_entry \<Rightarrow> a_message" where
  "resolve_entry amc (RUserText t) = AUserText t"
| "resolve_entry amc RAssistantShared = AAssistant amc"
| "resolve_entry amc (RToolResult i t) = AToolResult i t"

definition resolve :: "block list \<Rightarrow> a_entry list \<Rightarrow> a_message list" where
  "resolve amc ms = map (resolve_entry amc) ms"

text \<open>
  Provider B answers with \<open>choices\<close>; \<open>choices[0].message\<close> has an optional \<open>content\<close>
  and an optional list \<open>tool_calls\<close>, each with \<open>id\<close>, \<open>function.name\<close> and the
  JSON-encoded string \<open>function.arguments\<close>.
\<close>

datatype tool_call =
  ToolCall (tc_id: string) (tc_name: string) (tc_arguments: string)

datatype o_reply =
  OReply (content: "string option") (tool_calls: "tool_call list option")

text \<open>The messages sent to provider B.\<close>

datatype o_message =
    OUser string
  | OAssistantToolCall string string string
  | OTool string string

subsection \<open>The external collaborators\<close>

text \<open>
  The content of a tool result is a list of parts; a part has a \<open>text\<close> attribute or not.
  Every external call takes the world and returns the next one, with the value returned or
  the exception raised. \<open>json_loads\<close> gives \<open>None\<close> where \<open>json.loads\<close> raises
  \<open>JSONDecodeError\<close>; \<open>py_str\<close> is the text an f-string gives for the decoded arguments;
  \<open>show_provider\<close> the text it gives for a \<open>ModelProvider\<close>.
\<close>

record 'w env =
  environ :: "string \<Rightarrow> string option"
  json_loads :: "string \<Rightarrow> json option"
  py_str :: "json \<Rightarrow> string"
  show_provider :: "ModelProvider \<Rightarrow> string"
  list_tools :: "nat \<Rightarrow> 'w \<Rightarrow> (exn + tool list) \<times> 'w"
  call_tool :: "nat \<Rightarrow> string \<Rightarrow> json \<Rightarrow> 'w \<Rightarrow> (exn + string option list) \<times> 'w"
  anthropic_create ::
    "string \<Rightarrow> string option \<Rightarrow> a_message list \<Rightarrow> a_wire_tool list \<Rightarrow> 'w \<Rightarrow> (exn + block list) \<times> 'w"
  openai_create ::
    "string \<Rightarrow> string option \<Rightarrow> o_message list \<Rightarrow> o_wire_tool list option \<Rightarrow> 'w
       \<Rightarrow> (exn + o_reply list) \<times> 'w"

text \<open>
  The log of the external calls a run makes, in order, each with its arguments and its
  outcome. The log is not a variable of the program: it is what the claims about
  ``which calls are made'' are stated on.
\<close>

datatype event =
    ListTools "exn + tool list"
  | CallTool string json "exn + string option list"
  | AnthropicCreate "a_message list" "a_wire_tool list" "exn + block list"
  | OpenAICreate "o_message list" "o_wire_tool list option" "exn + o_reply list"

fun is_provider_call :: "event \<Rightarrow> bool" where
  "is_provider_call (AnthropicCreate ms ts r) = True"
| "is_provider_call (OpenAICreate ms ts r) = True"
| "is_provider_call ev = False"

fun is_tool_call :: "event \<Rightarrow> bool" where
  "is_tool_call (CallTool n a r) = True"
| "is_tool_call ev = False"

text \<open>The \<open>AttributeError\<close> of an attribute access on \<open>None\<close>.\<close>

definition quoted :: "string \<Rightarrow> string" where
  "quoted s = CHR 0x27 # s @ [CHR 0x27]"

definition none_has_no_attribute :: "string \<Rightarrow> exn" where
  "none_has_no_attribute attr =
     AttributeError (quoted ''NoneType'' @ '' object has no attribute '' @ quoted attr)"

text \<open>
  \<open>await self.session.call_tool(tool_name, tool_args)\<close>, then
  \<open>"\n".join(c.text for c in result.content if hasattr(c, 'text'))\<close>. With no session the
  attribute access on \<open>None\<close> raises and nothing is called.
\<close>

definition session_call_tool ::
  "'w env \<Rightarrow> client \<Rightarrow> string \<Rightarrow> json \<Rightarrow> 'w \<times> event list \<Rightarrow> (exn + string option list) \<times> 'w \<times> event list"
where
  "session_call_tool env c tool_name tool_args wt =
     (case session c of
        None \<Rightarrow> (Inl (none_has_no_attribute ''call_tool''), wt)
      | Some sid \<Rightarrow>
          (case call_tool env sid tool_name tool_args (fst wt) of
             (r, w') \<Rightarrow> (r, w', snd wt @ [CallTool tool_name tool_args r])))"

definition tool_result_text :: "string option list \<Rightarrow> string" where
  "tool_result_text parts = join_nl (concat (map (\<lambda>p. case p of None \<Rightarrow> [] | Some t \<Rightarrow> [t]) parts))"

text \<open>The three trace lines of a tool execution, shared by both query methods.\<close>

definition calling_line :: "'w env \<Rightarrow> string \<Rightarrow> json \<Rightarrow> string" where
  "calling_line env tool_name tool_args =
     ''[Calling tool '' @ tool_name @ '' with args '' @ py_str env tool_args @ '']''"

definition result_line :: "string \<Rightarrow> string" where
  "result_line txt = ''[Tool result: '' @ txt @ '']''"

definition tool_error_line :: "string \<Rightarrow> exn \<Rightarrow> string" where
  "tool_error_line tool_name e = ''[Error calling tool '' @ tool_name @ '': '' @ str_exn e @ '']''"

definition followup_error_line :: "exn \<Rightarrow> string" where
  "followup_error_line e = ''[Error getting response after tool call: '' @ str_exn e @ '']''"

definition parse_error_line :: "string \<Rightarrow> string" where
  "parse_error_line tool_name = ''[Error: Could not parse arguments for '' @ tool_name @ '']''"

subsection \<open>\<open>_process_anthropic_query\<close>\<close>

text \<open>
  The local variables of a query method (\<open>messages\<close>, \<open>final_text\<close>), with the world and
  the log of external calls; provider A's method has \<open>assistant_message_content\<close> besides.
\<close>

record ('m, 'w) query_state =
  messages :: "'m list"
  final_text :: "string list"
  world :: 'w
  trace :: "event list"

record ('m, 'w) anthropic_state = "('m, 'w) query_state" +
  assistant_message_content :: "block list"

text \<open>\<open>self.anthropic.messages.create(model=self.full_model_name, max_tokens=1000, messages=..., tools=...)\<close>\<close>

definition anthropic_messages_create ::
  "'w env \<Rightarrow> client \<Rightarrow> a_message list \<Rightarrow> a_wire_tool list \<Rightarrow> 'w \<times> event list
     \<Rightarrow> (exn + block list) \<times> 'w \<times> event list"
where
  "anthropic_messages_create env c msgs available_tools wt =
     (case anthropic c of
        None \<Rightarrow> (Inl (none_has_no_attribute ''messages''), wt)
      | Some key \<Rightarrow>
          (case anthropic_create env key (full_model_name c) msgs available_tools (fst wt) of
             (r, w') \<Rightarrow> (r, w', snd wt @ [AnthropicCreate msgs available_tools r])))"

text \<open>The body of \<open>for content in response.content\<close> (lines 212 to 261).\<close>

fun anthropic_block ::
  "'w env \<Rightarrow> client \<Rightarrow> a_wire_tool list \<Rightarrow> block \<Rightarrow> (a_entry, 'w) anthropic_state
     \<Rightarrow> (a_entry, 'w) anthropic_state"
where
  "anthropic_block env c available_tools (TextBlock t) s =
     s\<lparr>final_text := final_text s @ [t],
       assistant_message_content := assistant_message_content s @ [TextBlock t]\<rparr>"
| "anthropic_block env c available_tools (ToolUseBlock i tool_name tool_args) s =
     (case session_call_tool env c tool_name tool_args (world s, trace s) of
        (Inl e, w1, tr1) \<Rightarrow>
          s\<lparr>final_text := final_text s @ [tool_error_line tool_name e], world := w1, trace := tr1\<rparr>
      | (Inr parts, w1, tr1) \<Rightarrow>
          (let txt = tool_result_text parts;
               s1 = s\<lparr>messages := messages s @ [RAssistantShared, RToolResult i txt],
                       final_text := final_text s @ [calling_line env tool_name tool_args, result_line txt],
                       world := w1, trace := tr1,
                       assistant_message_content :=
                         assistant_message_content s @ [ToolUseBlock i tool_name tool_args]\<rparr>
           in case anthropic_messages_create env c
                     (resolve (assistant_message_content s1) (messages s1)) available_tools (w1, tr1) of
                (Inl e, w2, tr2) \<Rightarrow>
                  s1\<lparr>final_text := final_text s1 @ [followup_error_line e], world := w2, trace := tr2\<rparr>
              | (Inr (TextBlock t # rest), w2, tr2) \<Rightarrow>
                  s1\<lparr>final_text := final_text s1 @ [t], world := w2, trace := tr2\<rparr>
              | (Inr other, w2, tr2) \<Rightarrow>
                  s1\<lparr>world := w2, trace := tr2\<rparr>))"
| "anthropic_block env c available_tools (OtherBlock ty) s = s"

text \<open>
  The \<open>for\<close> statement evaluates \<open>response.content\<close> once: the loop walks the blocks of
  the first response, whatever \<open>response\<close> is bound to later.
\<close>

fun anthropic_loop ::
  "'w env \<Rightarrow> client \<Rightarrow> a_wire_tool list \<Rightarrow> block list \<Rightarrow> (a_entry, 'w) anthropic_state
     \<Rightarrow> (a_entry, 'w) anthropic_state"
where
  "anthropic_loop env c available_tools [] s = s"
| "anthropic_loop env c available_tools (b # bs) s =
     anthropic_loop env c available_tools bs (anthropic_block env c available_tools b s)"

text \<open>
  The method up to its \<open>return\<close>: the exception it raises, if any, and the final values of
  its variables.
\<close>

definition process_anthropic_run ::
  "'w env \<Rightarrow> client \<Rightarrow> string \<Rightarrow> tool list \<Rightarrow> 'w \<times> event list
     \<Rightarrow> exn option \<times> (a_entry, 'w) anthropic_state"
where
  "process_anthropic_run env c query tools wt =
     (let msgs = [RUserText query];
          available_tools = anthropic_tools tools
      in case anthropic_messages_create env c (resolve [] msgs) available_tools wt of
           (Inl e, w1, tr1) \<Rightarrow>
             (Some e, \<lparr>messages = msgs, final_text = [], world = w1, trace = tr1,
                       assistant_message_content = []\<rparr>)
         | (Inr blocks, w1, tr1) \<Rightarrow>
             (None, anthropic_loop env c available_tools blocks
                      \<lparr>messages = msgs, final_text = [], world = w1, trace = tr1,
                       assistant_message_content = []\<rparr>))"

text \<open>What a call of a method leaves behind: the value returned or the exception raised, the world and the log.\<close>

record 'w outcome =
  returned :: "exn + string"
  world_after :: 'w
  events :: "event list"

definition finish :: "exn option \<times> ('m, 'w, 'z) query_state_scheme \<Rightarrow> 'w outcome" where
  "finish r =
     \<lparr>returned = (case fst r of Some e \<Rightarrow> Inl e | None \<Rightarrow> Inr (join_nl (final_text (snd r)))),
      world_after = world (snd r), events = trace (snd r)\<rparr>"

definition process_anthropic_query ::
  "'w env \<Rightarrow> client \<Rightarrow> string \<Rightarrow> tool list \<Rightarrow> 'w \<times> event list \<Rightarrow> 'w outcome"
where
  "process_anthropic_query env c query tools wt = finish (process_anthropic_run env c query tools wt)"

text \<open>The conversation as provider A would be sent it at the end of the method.\<close>

definition anthropic_conversation :: "(a_entry, 'w) anthropic_state \<Rightarrow> a_message list" where
  "anthropic_conversation s = resolve (assistant_message_content s) (messages s)"

subsection \<open>\<open>_process_openai_query\<close>\<close>

text \<open>\<open>self.openai.chat.completions.create(model=self.full_model_name, messages=..., [tools=...,] max_tokens=1000)\<close>\<close>

definition openai_chat_create ::
  "'w env \<Rightarrow> client \<Rightarrow> o_message list \<Rightarrow> o_wire_tool list option \<Rightarrow> 'w \<times> event list
     \<Rightarrow> (exn + o_reply list) \<times> 'w \<times> event list"
where
  "openai_chat_create env c msgs available_tools wt =
     (case openai c of
        None \<Rightarrow> (Inl (none_has_no_attribute ''chat''), wt)
      | Some key \<Rightarrow>
          (case openai_create env key (full_model_name c) msgs available_tools (fst wt) of
             (r, w') \<Rightarrow> (r, w', snd wt @ [OpenAICreate msgs available_tools r])))"

text \<open>The body of \<open>for tool_call in message.tool_calls\<close> (lines 308 to 365).\<close>

definition openai_tool_call ::
  "'w env \<Rightarrow> client \<Rightarrow> tool_call \<Rightarrow> (o_message, 'w) query_state \<Rightarrow> (o_message, 'w) query_state"
where
  "openai_tool_call env c tool_call s =
     (let tool_name = tc_name tool_call in
      case json_loads env (tc_arguments tool_call) of
        None \<Rightarrow> s\<lparr>final_text := final_text s @ [parse_error_line tool_name]\<rparr>
      | Some tool_args \<Rightarrow>
          (case session_call_tool env c tool_name tool_args (world s, trace s) of
             (Inl e, w1, tr1) \<Rightarrow>
               s\<lparr>final_text := final_text s @ [tool_error_line tool_name e],
                 world := w1, trace := tr1\<rparr>
           | (Inr parts, w1, tr1) \<Rightarrow>
               (let txt = tool_result_text parts;
                    s1 = s\<lparr>messages := messages s @
                               [OAssistantToolCall (tc_id tool_call) tool_name (tc_arguments tool_call),
                                OTool (tc_id tool_call) txt],
                            final_text := final_text s @
                               [calling_line env tool_name tool_args, result_line txt],
                            world := w1, trace := tr1\<rparr>
                in case openai_chat_create env c (messages s1) None (w1, tr1) of
                     (Inl e, w2, tr2) \<Rightarrow>
                       s1\<lparr>final_text := final_text s1 @ [followup_error_line e],
                          world := w2, trace := tr2\<rparr>
                   | (Inr [], w2, tr2) \<Rightarrow>
                       s1\<lparr>world := w2, trace := tr2\<rparr>
                   | (Inr (reply # rest), w2, tr2) \<Rightarrow>
                       s1\<lparr>final_text := final_text s1 @ [or_empty (content reply)],
                          world := w2, trace := tr2\<rparr>)))"

fun openai_loop ::
  "'w env \<Rightarrow> client \<Rightarrow> tool_call list \<Rightarrow> (o_message, 'w) query_state \<Rightarrow> (o_message, 'w) query_state"
where
  "openai_loop env c [] s = s"
| "openai_loop env c (tool_call # tcs) s = openai_loop env c tcs (openai_tool_call env c tool_call s)"

text \<open>
  \<open>response.choices[0]\<close> of the first response is read outside every \<open>try\<close>: on an empty
  list the \<open>IndexError\<close> leaves the method.
\<close>

definition process_openai_run ::
  "'w env \<Rightarrow> client \<Rightarrow> string \<Rightarrow> tool list \<Rightarrow> 'w \<times> event list
     \<Rightarrow> exn option \<times> (o_message, 'w) query_state"
where
  "process_openai_run env c query tools wt =
     (let msgs = [OUser query];
          available_tools = openai_tools tools
      in case openai_chat_create env c msgs (Some available_tools) wt of
           (Inl e, w1, tr1) \<Rightarrow>
             (Some e, \<lparr>messages = msgs, final_text = [], world = w1, trace = tr1\<rparr>)
         | (Inr [], w1, tr1) \<Rightarrow>
             (Some (IndexError ''list index out of range''),
              \<lparr>messages = msgs, final_text = [], world = w1, trace = tr1\<rparr>)
         | (Inr (message # rest), w1, tr1) \<Rightarrow>
             (let content0 = or_empty (content message);
                  s0 = \<lparr>messages = msgs,
                        final_text = (if content0 \<noteq> [] then [content0] else []),
                        world = w1, trace = tr1\<rparr>
              in case tool_calls message of
                   None \<Rightarrow> (None, s0)
                 | Some tcs \<Rightarrow> (None, openai_loop env c tcs s0)))"

definition process_openai_query ::
  "'w env \<Rightarrow> client \<Rightarrow> string \<Rightarrow> tool list \<Rightarrow> 'w \<times> event list \<Rightarrow> 'w outcome"
where
  "process_openai_query env c query tools wt = finish (process_openai_run env c query tools wt)"

subsection \<open>\<open>process_query\<close>\<close>

definition not_connected :: exn where
  "not_connected = ValueError ''Not connected to a server. Call connect_to_server() first.''"

text \<open>
  The method assigns no attribute of \<open>self\<close>; the client is returned as it was received, so
  that this can be stated.
\<close>

definition process_query :: "'w env \<Rightarrow> client \<Rightarrow> string \<Rightarrow> 'w \<Rightarrow> 'w outcome \<times> client" where
  "process_query env c query w =
     (case session c of
        None \<Rightarrow> (\<lparr>returned = Inl not_connected, world_after = w, events = []\<rparr>, c)
      | Some sid \<Rightarrow>
          (case list_tools env sid w of
             (Inl e, w1) \<Rightarrow>
               (\<lparr>returned = Inl e, world_after = w1, events = [ListTools (Inl e)]\<rparr>, c)
           | (Inr tools, w1) \<Rightarrow>
               (if provider c = ANTHROPIC
                then (process_anthropic_query env c query tools (w1, [ListTools (Inr tools)]), c)
                else (process_openai_query env c query tools (w1, [ListTools (Inr tools)]), c))))"

subsection \<open>The constructor and the body of \<open>chat_loop\<close>\<close>

text \<open>\<open>TABLE.get(key, key)\<close> for an optional key.\<close>

definition get_or_self :: "(string \<times> string) list \<Rightarrow> string option \<Rightarrow> string option" where
  "get_or_self table k =
     (case k of
        None \<Rightarrow> None
      | Some m \<Rightarrow> (case map_of table m of None \<Rightarrow> Some m | Some v \<Rightarrow> Some v))"

text \<open>Truth value of an optional string: \<open>None\<close> and \<open>""\<close> are false.\<close>

definition truthy :: "string option \<Rightarrow> bool" where
  "truthy x = (case x of None \<Rightarrow> False | Some t \<Rightarrow> t \<noteq> [])"

text \<open>
  \<open>UniversalMCPClient(provider, model_name)\<close>. The last \<open>else\<close> of \<open>__init__\<close> (a provider
  that is neither member of the enum) has no value of type \<open>ModelProvider\<close> to reach it.
\<close>

definition init_client :: "'w env \<Rightarrow> ModelProvider \<Rightarrow> string option \<Rightarrow> exn + client" where
  "init_client env prov model =
     (case prov of
        ANTHROPIC \<Rightarrow>
          (let api_key = environ env ''ANTHROPIC_API_KEY'' in
           if \<not> truthy api_key
           then Inl (ValueError ''ANTHROPIC_API_KEY not set in environment or .env file'')
           else
             (let model1 = (if \<not> truthy model then Some ''claude-3-sonnet'' else model) in
              Inr \<lparr>session = None, server_path = None, provider = prov, model_name = model1,
                   full_model_name = get_or_self ANTHROPIC_MODELS model1,
                   anthropic = api_key, openai = None\<rparr>))
      | OPENAI \<Rightarrow>
          (let api_key = environ env ''OPENAI_API_KEY'' in
           if \<not> truthy api_key
           then Inl (ValueError ''OPENAI_API_KEY not set in environment or .env file'')
           else
             (let model1 = (if \<not> truthy model then Some ''gpt-4-turbo'' else model) in
              Inr \<lparr>session = None, server_path = None, provider = prov, model_name = model1,
                   full_model_name = get_or_self OPENAI_MODELS model1,
                   anthropic = None, openai = api_key\<rparr>)))"

datatype control = Continue | Break

text \<open>
  One turn of \<open>while True\<close> in \<open>chat_loop\<close>, for the line that \<open>input\<close> returned: what
  the loop does next, the client, the world, the lines printed and the external calls made.
  The whole body is inside \<open>try ... except Exception\<close>, which prints the error.
\<close>

record 'w turn =
  control :: control
  client_after :: client
  turn_world :: 'w
  printed :: "string list"
  turn_events :: "event list"

definition none_text :: "string option \<Rightarrow> string" where
  "none_text x = (case x of None \<Rightarrow> ''None'' | Some t \<Rightarrow> t)"

text \<open>
  Lines 425 and 426: the line is sent as a query and the response is printed; an exception
  of \<open>process_query\<close> reaches the handler of the loop body.
\<close>

definition query_turn :: "'w env \<Rightarrow> client \<Rightarrow> 'w \<Rightarrow> string \<Rightarrow> 'w turn" where
  "query_turn env c w query =
     (case process_query env c query w of
        (out, c') \<Rightarrow>
          \<lparr>control = Continue, client_after = c', turn_world = world_after out,
           printed = [case returned out of
                        Inl e \<Rightarrow> newline # ''Error: '' @ str_exn e
                      | Inr response \<Rightarrow> newline # response],
           turn_events = events out\<rparr>)"

text \<open>
  Lines 386 to 423, the block under \<open>if query.lower().startswith('use ')\<close>. The turn ends
  inside the block at the \<open>continue\<close> of line 392 and at the one of line 423, which belongs
  to the \<open>if\<close> of line 402. When the condition of line 402 is false no \<open>continue\<close> is
  reached and control leaves the block for line 425: the result is \<open>None\<close>.
\<close>

definition switch_provider :: "'w env \<Rightarrow> client \<Rightarrow> 'w \<Rightarrow> string \<Rightarrow> 'w turn option" where
  "switch_provider env c w query =
     (case split CHR '':'' (strip (drop 4 query)) of
        [] \<Rightarrow>
          Some \<lparr>control = Continue, client_after = c, turn_world = w,
                printed = [newline # ''Error: list index out of range''], turn_events = []\<rparr>
      | part0 # parts1 \<Rightarrow>
          (let provider_str = lower (strip part0) in
           if provider_str \<notin> set [''openai'', ''anthropic'']
           then Some \<lparr>control = Continue, client_after = c, turn_world = w,
                      printed = [''Unsupported provider: '' @ provider_str @
                                 ''. Use '' @ quoted ''openai'' @ '' or '' @ quoted ''anthropic'' @ ''.''],
                      turn_events = []\<rparr>
           else
             (let new_provider = (if provider_str = ''openai'' then OPENAI else ANTHROPIC);
                  new_model = (case parts1 of [] \<Rightarrow> None | part1 # others \<Rightarrow> Some (strip part1))
              in if new_provider \<noteq> provider c \<or> (truthy new_model \<and> new_model \<noteq> model_name c)
                 then
                   (case init_client env new_provider new_model of
                      Inl e \<Rightarrow>
                        Some \<lparr>control = Continue, client_after = c, turn_world = w,
                              printed = [''Error switching model: '' @ str_exn e], turn_events = []\<rparr>
                    | Inr new_client \<Rightarrow>
                        (let c1 = c\<lparr>provider := new_provider, model_name := new_model\<rparr>;
                             c2 = (if provider c1 = ANTHROPIC
                                   then c1\<lparr>full_model_name := get_or_self ANTHROPIC_MODELS (model_name c1),
                                           anthropic := anthropic new_client, openai := None\<rparr>
                                   else c1\<lparr>full_model_name := get_or_self OPENAI_MODELS (model_name c1),
                                           openai := openai new_client, anthropic := None\<rparr>)
                         in Some \<lparr>control = Continue, client_after = c2, turn_world = w,
                                  printed = [''Switched to '' @ show_provider env (provider c2) @
                                             '' with model '' @ none_text (full_model_name c2)],
                                  turn_events = []\<rparr>))
                 else None)))"

definition chat_turn :: "'w env \<Rightarrow> string \<Rightarrow> client \<Rightarrow> 'w \<Rightarrow> 'w turn" where
  "chat_turn env line c w =
     (let query = strip line in
      if lower query = ''quit''
      then \<lparr>control = Break, client_after = c, turn_world = w, printed = [], turn_events = []\<rparr>
      else
        (case (if startswith (lower query) ''use '' then switch_provider env c w query else None) of
           Some t \<Rightarrow> t
         | None \<Rightarrow> query_turn env c w query))"

subsection \<open>A scripted environment for concrete runs\<close>

text \<open>
  The world is the list of answers each collaborator still has to give; a call takes the
  next one. The session lists one tool, \<open>get_weather\<close>. The decoder knows the two argument
  strings the examples use.
\<close>

record script =
  a_answers :: "(exn + block list) list"
  o_answers :: "(exn + o_reply list) list"
  tool_answers :: "(exn + string option list) list"

definition weather_tool :: tool where
  "weather_tool =
     \<lparr>name = ''get_weather'', description = None,
      inputSchema = JObj [(''type'', JStr ''object'')]\<rparr>"

definition paris :: json where
  "paris = JObj [(''city'', JStr ''Paris'')]"

text \<open>The JSON text \<open>{"city": "Paris"}\<close> and Python's text for the decoded dictionary.\<close>

definition paris_arguments :: string where
  "paris_arguments =
     ''{'' @ CHR 0x22 # ''city'' @ CHR 0x22 # '': '' @ CHR 0x22 # ''Paris'' @ CHR 0x22 # ''}''"

definition paris_text :: string where
  "paris_text = ''{'' @ quoted ''city'' @ '': '' @ quoted ''Paris'' @ ''}''"

definition scripted :: "script env" where
  "scripted =
     \<lparr>environ = map_of [(''ANTHROPIC_API_KEY'', ''key-a''), (''OPENAI_API_KEY'', ''key-o'')],
      json_loads = map_of [(''{}'', JObj []), (paris_arguments, paris)],
      py_str = (\<lambda>j. if j = paris then paris_text else ''{}''),
      show_provider = (\<lambda>p. case p of ANTHROPIC \<Rightarrow> ''anthropic'' | OPENAI \<Rightarrow> ''openai''),
      list_tools = (\<lambda>sid w. (Inr [weather_tool], w)),
      call_tool = (\<lambda>sid n a w.
         case tool_answers w of
           [] \<Rightarrow> (Inl (ExternalError ''no answer''), w)
         | r # rs \<Rightarrow> (r, w\<lparr>tool_answers := rs\<rparr>)),
      anthropic_create = (\<lambda>key model msgs ts w.
         case a_answers w of
           [] \<Rightarrow> (Inl (ExternalError ''no answer''), w)
         | r # rs \<Rightarrow> (r, w\<lparr>a_answers := rs\<rparr>)),
      openai_create = (\<lambda>key model msgs ts w.
         case o_answers w of
           [] \<Rightarrow> (Inl (ExternalError ''no answer''), w)
         | r # rs \<Rightarrow> (r, w\<lparr>o_answers := rs\<rparr>))\<rparr>"

definition claude_client :: client where
  "claude_client =
     \<lparr>session = Some 1, server_path = Some ''server.py'', provider = ANTHROPIC,
      model_name = Some ''claude-3-sonnet'', full_model_name = Some ''claude-3-7-sonnet-latest'',
      anthropic = Some ''key-a'', openai = None\<rparr>"

definition gpt_client :: client where
  "gpt_client =
     \<lparr>session = Some 1, server_path = Some ''server.py'', provider = OPENAI,
      model_name = Some ''gpt-4-turbo'', full_model_name = Some ''gpt-4-turbo'',
      anthropic = None, openai = Some ''key-o''\<rparr>"

subsection \<open>Reading the log and the responses\<close>

text \<open>The tool requests of a response of provider A, in order: name and input of every \<open>tool_use\<close> block.\<close>

fun tool_uses :: "block list \<Rightarrow> (string \<times> json) list" where
  "tool_uses [] = []"
| "tool_uses (ToolUseBlock i n a # bs) = (n, a) # tool_uses bs"
| "tool_uses (b # bs) = tool_uses bs"

text \<open>The tool requests of a response of provider B whose arguments decode, in order.\<close>

fun decoded_calls :: "'w env \<Rightarrow> tool_call list \<Rightarrow> (string \<times> json) list" where
  "decoded_calls env [] = []"
| "decoded_calls env (tc # tcs) =
     (case json_loads env (tc_arguments tc) of
        None \<Rightarrow> decoded_calls env tcs
      | Some a \<Rightarrow> (tc_name tc, a) # decoded_calls env tcs)"

text \<open>The tool executions of a log, in order, and the test for a tool execution that returned.\<close>

fun called :: "event list \<Rightarrow> (string \<times> json) list" where
  "called [] = []"
| "called (CallTool n a r # evs) = (n, a) # called evs"
| "called (ev # evs) = called evs"

fun succeeded :: "event \<Rightarrow> bool" where
  "succeeded (CallTool n a (Inr r)) = True"
| "succeeded ev = False"

text \<open>\<open>message.tool_calls\<close> as the list the loop walks: none when the attribute is \<open>None\<close>.\<close>

definition tool_calls_of :: "o_reply \<Rightarrow> tool_call list" where
  "tool_calls_of message = (case tool_calls message of None \<Rightarrow> [] | Some tcs \<Rightarrow> tcs)"

text \<open>
  Between two logs of one run: the later one has one provider call more for every tool
  execution that returned.
\<close>

definition balance :: "event list \<Rightarrow> event list \<Rightarrow> bool" where
  "balance tr tr' =
     (length (filter is_provider_call tr') + length (filter succeeded tr) =
      length (filter is_provider_call tr) + length (filter succeeded tr'))"





text \<open>
  The variables of a query method when its \<open>for\<close> loop starts, in a query whose first provider
  call returned (\<open>process_query\<close> has listed the tools and called the provider once).
\<close>

definition anthropic_first ::
  "string \<Rightarrow> tool list \<Rightarrow> block list \<Rightarrow> 'w \<Rightarrow> (a_entry, 'w) anthropic_state"
where
  "anthropic_first query tools blocks w =
     \<lparr>messages = [RUserText query], final_text = [], world = w,
      trace = [ListTools (Inr tools),
               AnthropicCreate [AUserText query] (anthropic_tools tools) (Inr blocks)],
      assistant_message_content = []\<rparr>"

definition openai_first ::
  "string \<Rightarrow> tool list \<Rightarrow> o_reply \<Rightarrow> o_reply list \<Rightarrow> 'w \<Rightarrow> (o_message, 'w) query_state"
where
  "openai_first query tools message rest w =
     \<lparr>messages = [OUser query],
      final_text = (if or_empty (content message) \<noteq> [] then [or_empty (content message)] else []),
      world = w,
      trace = [ListTools (Inr tools),
               OpenAICreate [OUser query] (Some (openai_tools tools)) (Inr (message # rest))]\<rparr>"

subsection \<open>Concrete runs\<close>

text \<open>Provider A asks for a tool, and asks for another one in its follow-up response.\<close>

definition followup_script :: script where
  "followup_script =
     \<lparr>a_answers = [Inr [ToolUseBlock ''t1'' ''get_weather'' paris],
                   Inr [ToolUseBlock ''t2'' ''get_weather'' (JObj [])]],
      o_answers = [],
      tool_answers = [Inr [Some ''sunny''], Inr [Some ''rain'']]\<rparr>"

text \<open>
  Provider A asks for two tools in one response; both executions return; the first follow-up
  call answers with text, the second fails.
\<close>

definition two_tools_script :: script where
  "two_tools_script =
     \<lparr>a_answers = [Inr [TextBlock ''Let me check.'',
                        ToolUseBlock ''t1'' ''get_weather'' paris,
                        ToolUseBlock ''t2'' ''get_weather'' (JObj [])],
                   Inr [TextBlock ''Sunny in Paris.''],
                   Inl (ExternalError ''rate limit'')],
      o_answers = [],
      tool_answers = [Inr [Some ''sunny''], Inr [Some ''rain'']]\<rparr>"

text \<open>Provider A asks for one tool, whose execution fails.\<close>

definition failing_tool_script :: script where
  "failing_tool_script =
     \<lparr>a_answers = [Inr [ToolUseBlock ''t1'' ''get_weather'' paris]],
      o_answers = [],
      tool_answers = [Inl (ExternalError ''timeout'')]\<rparr>"

text \<open>
  Provider B asks for three tools in one response: the arguments of the second do not
  decode, the execution of the third fails; the follow-up call after the first fails.
\<close>

definition three_calls :: "tool_call list" where
  "three_calls =
     [ToolCall ''c1'' ''get_weather'' paris_arguments,
      ToolCall ''c2'' ''get_weather'' ''{oops'',
      ToolCall ''c3'' ''get_weather'' ''{}'']"

definition gpt_script :: script where
  "gpt_script =
     \<lparr>a_answers = [],
      o_answers = [Inr [OReply None (Some three_calls)],
                   Inl (ExternalError ''rate limit'')],
      tool_answers = [Inr [Some ''sunny''], Inl (ExternalError ''timeout'')]\<rparr>"

text \<open>
  Either provider asks for two tools in one response; both executions return; the
  follow-up call after the first one fails, the follow-up call after the second one
  answers with text.
\<close>

definition failed_followup_script :: script where
  "failed_followup_script =
     \<lparr>a_answers = [Inr [TextBlock ''Let me check.'',
                        ToolUseBlock ''t1'' ''get_weather'' paris,
                        ToolUseBlock ''t2'' ''get_weather'' (JObj [])],
                   Inl (ExternalError ''rate limit''),
                   Inr [TextBlock ''Rain in Oslo.'']],
      o_answers = [Inr [OReply None (Some [ToolCall ''c1'' ''get_weather'' paris_arguments,
                                          ToolCall ''c3'' ''get_weather'' ''{}''])],
                   Inl (ExternalError ''rate limit''),
                   Inr [OReply (Some ''Rain in Oslo.'') None]],
      tool_answers = [Inr [Some ''sunny''], Inr [Some ''rain'']]\<rparr>"

text \<open>The variables of a query method right after a first provider call that left the world \<open>w\<close>.\<close>

definition anthropic_start :: "string \<Rightarrow> 'w \<Rightarrow> (a_entry, 'w) anthropic_state" where
  "anthropic_start query w =
     \<lparr>messages = [RUserText query], final_text = [], world = w, trace = [],
      assistant_message_content = []\<rparr>"

definition openai_start :: "string \<Rightarrow> 'w \<Rightarrow> (o_message, 'w) query_state" where
  "openai_start query w =
     \<lparr>messages = [OUser query], final_text = [], world = w, trace = []\<rparr>"

text \<open>The content blocks of the first response of \<open>two_tools_script\<close>.\<close>

definition two_tools_blocks :: "block list" where
  "two_tools_blocks =
     [TextBlock ''Let me check.'',
      ToolUseBlock ''t1'' ''get_weather'' paris,
      ToolUseBlock ''t2'' ''get_weather'' (JObj [])]"

text \<open>
  A stretch of provider B's conversation made of pairs: a tool request immediately followed
  by the tool result with the same id.
\<close>

fun paired :: "o_message list \<Rightarrow> bool" where
  "paired [] = True"
| "paired (OAssistantToolCall i n a # OTool j t # ms) = (i = j \<and> paired ms)"
| "paired ms = False"

section \<open>Properties\<close>

subsection \<open>The wire shapes of the tool list\<close>

lemma read_anthropic_tools:
  "map read_anthropic_tool (anthropic_tools tools) = map with_default_description tools"
  by (simp add: anthropic_tools_def read_anthropic_tool_def with_default_description_def)

lemma read_openai_tools:
  "map read_openai_tool (openai_tools tools) = map with_default_description tools"
  by (simp add: openai_tools_def read_openai_tool_def with_default_description_def)

lemma with_default_description_present:
  "description t \<noteq> None \<Longrightarrow> with_default_description t = t"
  by (auto simp: with_default_description_def or_empty_def)

text \<open>
  Claim C8. For every list of tools, the list sent to provider A holds, in order, an entry
  \<open>{name, description, input_schema}\<close> per tool and the list sent to provider B an entry
  \<open>{type: "function", function: {name, description, parameters}}\<close>, the description being
  the empty string where the tool has none. Reading name, description and schema back off
  either list gives the tools again, with the empty string for an absent description; when
  every tool has a description it gives exactly the original list.
\<close>

theorem wire_schema_lossless:
  "anthropic_tools tools =
     map (\<lambda>t. AWireTool (name t) (case description t of None \<Rightarrow> [] | Some d \<Rightarrow> d) (inputSchema t)) tools
   \<and> openai_tools tools =
     map (\<lambda>t. OWireTool ''function''
            (OFunction (name t) (case description t of None \<Rightarrow> [] | Some d \<Rightarrow> d) (inputSchema t))) tools
   \<and> map read_anthropic_tool (anthropic_tools tools) = map with_default_description tools
   \<and> map read_openai_tool (openai_tools tools) = map with_default_description tools
   \<and> ((\<forall>t \<in> set tools. description t \<noteq> None) \<longrightarrow>
        map read_anthropic_tool (anthropic_tools tools) = tools
        \<and> map read_openai_tool (openai_tools tools) = tools)"
proof -
  have shape_a: "anthropic_tools tools =
     map (\<lambda>t. AWireTool (name t) (case description t of None \<Rightarrow> [] | Some d \<Rightarrow> d) (inputSchema t)) tools"
    by (simp add: anthropic_tools_def or_empty_def)
  have shape_o: "openai_tools tools =
     map (\<lambda>t. OWireTool ''function''
            (OFunction (name t) (case description t of None \<Rightarrow> [] | Some d \<Rightarrow> d) (inputSchema t))) tools"
    by (simp add: openai_tools_def or_empty_def)
  have same: "map with_default_description tools = tools"
    if "\<forall>t \<in> set tools. description t \<noteq> None"
    using that by (simp add: with_default_description_present map_idI)
  show ?thesis
    using shape_a shape_o same read_anthropic_tools [of tools] read_openai_tools [of tools]
    by presburger
qed

theorem wire_schema_lossless_witness:
  "map read_anthropic_tool (anthropic_tools [weather_tool\<lparr>description := Some ''Weather for a city''\<rparr>])
     = [weather_tool\<lparr>description := Some ''Weather for a city''\<rparr>]
   \<and> map read_openai_tool (openai_tools [weather_tool\<lparr>description := Some ''Weather for a city''\<rparr>])
     = [weather_tool\<lparr>description := Some ''Weather for a city''\<rparr>]"
proof -
  have present:
    "\<forall>t \<in> set [weather_tool\<lparr>description := Some ''Weather for a city''\<rparr>]. description t \<noteq> None"
    by simp
  show ?thesis
    using present wire_schema_lossless [of "[weather_tool\<lparr>description := Some ''Weather for a city''\<rparr>]"]
    by blast
qed

subsection \<open>\<open>process_query\<close> without a session\<close>

text \<open>
  Claim C10. When the client has no session, \<open>process_query\<close> raises the \<open>ValueError\<close>
  whose text says that the client is not connected; the log of external calls is empty (no
  provider call, no tool call), and the world and the client are as they were.
\<close>

theorem process_query_not_connected:
  "session c = None \<Longrightarrow>
     process_query env c query w =
       (\<lparr>returned = Inl (ValueError ''Not connected to a server. Call connect_to_server() first.''),
         world_after = w, events = []\<rparr>, c)"
  by (simp add: process_query_def not_connected_def)

theorem process_query_not_connected_witness:
  "process_query scripted (claude_client\<lparr>session := None\<rparr>) ''What is the weather in Paris?''
      \<lparr>a_answers = [Inr [TextBlock ''hello'']], o_answers = [], tool_answers = []\<rparr> =
       (\<lparr>returned = Inl (ValueError ''Not connected to a server. Call connect_to_server() first.''),
         world_after = \<lparr>a_answers = [Inr [TextBlock ''hello'']], o_answers = [], tool_answers = []\<rparr>,
         events = []\<rparr>, claude_client\<lparr>session := None\<rparr>)"
  using process_query_not_connected [of "claude_client\<lparr>session := None\<rparr>" scripted
      "''What is the weather in Paris?''"
      "\<lparr>a_answers = [Inr [TextBlock ''hello'']], o_answers = [], tool_answers = []\<rparr>"]
  by simp

subsection \<open>The loops, step by step\<close>

lemma called_append: "called (xs @ ys) = called xs @ called ys"
  by (induction xs rule: called.induct) simp_all

lemma tool_uses_append: "tool_uses (xs @ ys) = tool_uses xs @ tool_uses ys"
  by (induction xs rule: tool_uses.induct) simp_all

lemma decoded_calls_append: "decoded_calls env (xs @ ys) = decoded_calls env xs @ decoded_calls env ys"
  by (induction xs) (simp_all split: option.splits)

lemma anthropic_loop_append:
  "anthropic_loop env c ts (xs @ ys) s = anthropic_loop env c ts ys (anthropic_loop env c ts xs s)"
  by (induction xs arbitrary: s) simp_all

lemma openai_loop_append:
  "openai_loop env c (xs @ ys) s = openai_loop env c ys (openai_loop env c xs s)"
  by (induction xs arbitrary: s) simp_all

lemma session_call_tool_cases:
  "session_call_tool env c n a (w, tr) = (r, w', tr') \<Longrightarrow>
     (session c = None \<and> r = Inl (none_has_no_attribute ''call_tool'') \<and> w' = w \<and> tr' = tr)
     \<or> (\<exists>sid. session c = Some sid \<and> call_tool env sid n a w = (r, w') \<and> tr' = tr @ [CallTool n a r])"
  by (auto simp: session_call_tool_def split: option.splits prod.splits)

lemma anthropic_messages_create_cases:
  "anthropic_messages_create env c ms ts (w, tr) = (r, w', tr') \<Longrightarrow>
     (anthropic c = None \<and> r = Inl (none_has_no_attribute ''messages'') \<and> w' = w \<and> tr' = tr)
     \<or> (\<exists>key. anthropic c = Some key \<and> anthropic_create env key (full_model_name c) ms ts w = (r, w')
           \<and> tr' = tr @ [AnthropicCreate ms ts r])"
  by (auto simp: anthropic_messages_create_def split: option.splits prod.splits)

lemma openai_chat_create_cases:
  "openai_chat_create env c ms ts (w, tr) = (r, w', tr') \<Longrightarrow>
     (openai c = None \<and> r = Inl (none_has_no_attribute ''chat'') \<and> w' = w \<and> tr' = tr)
     \<or> (\<exists>key. openai c = Some key \<and> openai_create env key (full_model_name c) ms ts w = (r, w')
           \<and> tr' = tr @ [OpenAICreate ms ts r])"
  by (auto simp: openai_chat_create_def split: option.splits prod.splits)

text \<open>Tool executions and provider calls of one step.\<close>

lemma anthropic_block_called:
  "session c \<noteq> None \<Longrightarrow>
   called (trace (anthropic_block env c ts b s)) = called (trace s) @ tool_uses [b]"
  by (cases b) (auto simp: Let_def called_append dest!: session_call_tool_cases anthropic_messages_create_cases
       split: prod.splits sum.splits list.splits block.splits)

lemma anthropic_loop_called:
  "session c \<noteq> None \<Longrightarrow>
   called (trace (anthropic_loop env c ts bs s)) = called (trace s) @ tool_uses bs"
proof (induction bs arbitrary: s)
  case Nil
  then show ?case by simp
next
  case (Cons b bs)
  have "tool_uses (b # bs) = tool_uses [b] @ tool_uses bs"
    using tool_uses_append [of "[b]" bs] by simp
  then show ?case
    using Cons by (simp add: anthropic_block_called)
qed

lemma openai_tool_call_called:
  "session c \<noteq> None \<Longrightarrow>
   called (trace (openai_tool_call env c tc s)) = called (trace s) @ decoded_calls env [tc]"
  by (auto simp: openai_tool_call_def Let_def called_append
       dest!: session_call_tool_cases openai_chat_create_cases
       split: prod.splits sum.splits list.splits option.splits)

lemma openai_loop_called:
  "session c \<noteq> None \<Longrightarrow>
   called (trace (openai_loop env c tcs s)) = called (trace s) @ decoded_calls env tcs"
proof (induction tcs arbitrary: s)
  case Nil
  then show ?case by simp
next
  case (Cons tc tcs)
  have "decoded_calls env (tc # tcs) = decoded_calls env [tc] @ decoded_calls env tcs"
    using decoded_calls_append [of env "[tc]" tcs] by simp
  then show ?case
    using Cons by (simp add: openai_tool_call_called)
qed

lemma balance_refl: "balance tr tr"
  by (simp add: balance_def)

lemma balance_trans: "balance a b \<Longrightarrow> balance b d \<Longrightarrow> balance a d"
  by (simp add: balance_def)

lemma anthropic_block_balance:
  "session c \<noteq> None \<Longrightarrow> anthropic c \<noteq> None \<Longrightarrow>
   balance (trace s) (trace (anthropic_block env c ts b s))"
  by (cases b) (auto simp: Let_def balance_def dest!: session_call_tool_cases anthropic_messages_create_cases
       split: prod.splits sum.splits list.splits block.splits)

lemma anthropic_loop_balance:
  "session c \<noteq> None \<Longrightarrow> anthropic c \<noteq> None \<Longrightarrow>
   balance (trace s) (trace (anthropic_loop env c ts bs s))"
proof (induction bs arbitrary: s)
  case Nil
  then show ?case by (simp add: balance_refl)
next
  case (Cons b bs)
  have "balance (trace s) (trace (anthropic_block env c ts b s))"
    using Cons.prems by (rule anthropic_block_balance)
  moreover have "balance (trace (anthropic_block env c ts b s))
      (trace (anthropic_loop env c ts bs (anthropic_block env c ts b s)))"
    using Cons.prems by (rule Cons.IH)
  ultimately show ?case
    using balance_trans by simp
qed

lemma openai_tool_call_balance:
  "session c \<noteq> None \<Longrightarrow> openai c \<noteq> None \<Longrightarrow>
   balance (trace s) (trace (openai_tool_call env c tc s))"
  by (auto simp: openai_tool_call_def Let_def balance_def
       dest!: session_call_tool_cases openai_chat_create_cases
       split: prod.splits sum.splits list.splits option.splits)

lemma openai_loop_balance:
  "session c \<noteq> None \<Longrightarrow> openai c \<noteq> None \<Longrightarrow>
   balance (trace s) (trace (openai_loop env c tcs s))"
proof (induction tcs arbitrary: s)
  case Nil
  then show ?case by (simp add: balance_refl)
next
  case (Cons tc tcs)
  have "balance (trace s) (trace (openai_tool_call env c tc s))"
    using Cons.prems by (rule openai_tool_call_balance)
  moreover have "balance (trace (openai_tool_call env c tc s))
      (trace (openai_loop env c tcs (openai_tool_call env c tc s)))"
    using Cons.prems by (rule Cons.IH)
  ultimately show ?case
    using balance_trans by simp
qed

lemma anthropic_block_final_text_prefix:
  "prefix (final_text s) (final_text (anthropic_block env c ts b s))"
  by (cases b) (auto simp: Let_def split: prod.splits sum.splits list.splits block.splits)

lemma anthropic_loop_final_text_prefix:
  "prefix (final_text s) (final_text (anthropic_loop env c ts bs s))"
proof (induction bs arbitrary: s)
  case Nil
  then show ?case by simp
next
  case (Cons b bs)
  have "prefix (final_text s) (final_text (anthropic_block env c ts b s))"
    by (rule anthropic_block_final_text_prefix)
  also have "prefix \<dots> (final_text (anthropic_loop env c ts bs (anthropic_block env c ts b s)))"
    by (rule Cons.IH)
  finally show ?case by simp
qed

lemma openai_tool_call_final_text_prefix:
  "prefix (final_text s) (final_text (openai_tool_call env c tc s))"
  by (auto simp: openai_tool_call_def Let_def split: prod.splits sum.splits list.splits option.splits)

lemma openai_loop_final_text_prefix:
  "prefix (final_text s) (final_text (openai_loop env c tcs s))"
proof (induction tcs arbitrary: s)
  case Nil
  then show ?case by simp
next
  case (Cons tc tcs)
  have "prefix (final_text s) (final_text (openai_tool_call env c tc s))"
    by (rule openai_tool_call_final_text_prefix)
  also have "prefix \<dots> (final_text (openai_loop env c tcs (openai_tool_call env c tc s)))"
    by (rule Cons.IH)
  finally show ?case by simp
qed

lemma anthropic_block_messages_prefix:
  "prefix (messages s) (messages (anthropic_block env c ts b s))"
  by (cases b) (auto simp: Let_def split: prod.splits sum.splits list.splits block.splits)

lemma anthropic_loop_messages_prefix:
  "prefix (messages s) (messages (anthropic_loop env c ts bs s))"
proof (induction bs arbitrary: s)
  case Nil
  then show ?case by simp
next
  case (Cons b bs)
  have "prefix (messages s) (messages (anthropic_block env c ts b s))"
    by (rule anthropic_block_messages_prefix)
  also have "prefix \<dots> (messages (anthropic_loop env c ts bs (anthropic_block env c ts b s)))"
    by (rule Cons.IH)
  finally show ?case by simp
qed

lemma openai_tool_call_messages_prefix:
  "prefix (messages s) (messages (openai_tool_call env c tc s))"
  by (auto simp: openai_tool_call_def Let_def split: prod.splits sum.splits list.splits option.splits)

lemma openai_loop_messages_prefix:
  "prefix (messages s) (messages (openai_loop env c tcs s))"
proof (induction tcs arbitrary: s)
  case Nil
  then show ?case by simp
next
  case (Cons tc tcs)
  have "prefix (messages s) (messages (openai_tool_call env c tc s))"
    by (rule openai_tool_call_messages_prefix)
  also have "prefix \<dots> (messages (openai_loop env c tcs (openai_tool_call env c tc s)))"
    by (rule Cons.IH)
  finally show ?case by simp
qed

lemma anthropic_block_trace_prefix:
  "prefix (trace s) (trace (anthropic_block env c ts b s))"
  by (cases b) (auto simp: Let_def dest!: session_call_tool_cases anthropic_messages_create_cases
       split: prod.splits sum.splits list.splits block.splits)

lemma anthropic_loop_trace_prefix:
  "prefix (trace s) (trace (anthropic_loop env c ts bs s))"
proof (induction bs arbitrary: s)
  case Nil
  then show ?case by simp
next
  case (Cons b bs)
  have "prefix (trace s) (trace (anthropic_block env c ts b s))"
    by (rule anthropic_block_trace_prefix)
  also have "prefix \<dots> (trace (anthropic_loop env c ts bs (anthropic_block env c ts b s)))"
    by (rule Cons.IH)
  finally show ?case by simp
qed

lemma openai_tool_call_trace_prefix:
  "prefix (trace s) (trace (openai_tool_call env c tc s))"
  by (auto simp: openai_tool_call_def Let_def dest!: session_call_tool_cases openai_chat_create_cases
       split: prod.splits sum.splits list.splits option.splits)

lemma openai_loop_trace_prefix:
  "prefix (trace s) (trace (openai_loop env c tcs s))"
proof (induction tcs arbitrary: s)
  case Nil
  then show ?case by simp
next
  case (Cons tc tcs)
  have "prefix (trace s) (trace (openai_tool_call env c tc s))"
    by (rule openai_tool_call_trace_prefix)
  also have "prefix \<dots> (trace (openai_loop env c tcs (openai_tool_call env c tc s)))"
    by (rule Cons.IH)
  finally show ?case by simp
qed

lemma anthropic_loop_split:
  "anthropic_loop env c ts (pre @ b # post) s =
     anthropic_loop env c ts post (anthropic_block env c ts b (anthropic_loop env c ts pre s))"
  by (simp add: anthropic_loop_append)

lemma openai_loop_split:
  "openai_loop env c (pre @ tc # post) s =
     openai_loop env c post (openai_tool_call env c tc (openai_loop env c pre s))"
  by (simp add: openai_loop_append)






text \<open>A line of the output buffer is part of the text returned.\<close>

lemma sublist_join_nl:
  "line \<in> set xs \<Longrightarrow> sublist line (join_nl xs)"
proof (induction xs rule: join_nl.induct)
  case 1
  then show ?case by simp
next
  case (2 x)
  then show ?case by simp
next
  case (3 x y ys)
  show ?case
  proof (cases "line = x")
    case True
    then show ?thesis
      using sublist_appendI [of x "[]" "newline # join_nl (y # ys)"] by simp
  next
    case False
    then have "sublist line (join_nl (y # ys))"
      using 3 by simp
    then obtain ps ss where "join_nl (y # ys) = ps @ line @ ss"
      by (auto simp: sublist_def)
    then have "join_nl (x # y # ys) = (x @ newline # ps) @ line @ ss"
      by simp
    then show ?thesis
      unfolding sublist_def by blast
  qed
qed

subsection \<open>Which tool requests are executed\<close>

lemma process_anthropic_query_first_ok:
  assumes "anthropic c = Some key"
    and "anthropic_create env key (full_model_name c) [AUserText query] (anthropic_tools tools) w1 = (Inr blocks, w2)"
  shows "process_anthropic_run env c query tools (w1, tr) =
           (None, anthropic_loop env c (anthropic_tools tools) blocks
                    \<lparr>messages = [RUserText query], final_text = [], world = w2,
                     trace = tr @ [AnthropicCreate [AUserText query] (anthropic_tools tools) (Inr blocks)],
                     assistant_message_content = []\<rparr>)"
  using assms
  by (simp add: process_anthropic_run_def anthropic_messages_create_def resolve_def Let_def)

lemma process_openai_query_first_ok:
  assumes "openai c = Some key"
    and "openai_create env key (full_model_name c) [OUser query] (Some (openai_tools tools)) w1 = (Inr (message # rest), w2)"
  shows "process_openai_run env c query tools (w1, tr) =
           (None, openai_loop env c (tool_calls_of message)
                    \<lparr>messages = [OUser query],
                     final_text = (if or_empty (content message) \<noteq> [] then [or_empty (content message)] else []),
                     world = w2,
                     trace = tr @ [OpenAICreate [OUser query] (Some (openai_tools tools)) (Inr (message # rest))]\<rparr>)"
  using assms
  by (simp add: process_openai_run_def openai_chat_create_def tool_calls_of_def Let_def
      split: option.splits)

lemma process_query_anthropic_ok:
  assumes "session c = Some sid" and "list_tools env sid w = (Inr tools, w1)"
    and "provider c = ANTHROPIC" and "anthropic c = Some key"
    and "anthropic_create env key (full_model_name c) [AUserText query] (anthropic_tools tools) w1
           = (Inr blocks, w2)"
  shows "fst (process_query env c query w) =
           finish (None :: exn option,
                   anthropic_loop env c (anthropic_tools tools) blocks (anthropic_first query tools blocks w2))"
  using assms process_anthropic_query_first_ok [of c key env query tools w1 blocks w2 "[ListTools (Inr tools)]"]
  by (simp add: process_query_def process_anthropic_query_def anthropic_first_def)

lemma process_query_openai_ok:
  assumes "session c = Some sid" and "list_tools env sid w = (Inr tools, w1)"
    and "provider c = OPENAI" and "openai c = Some key"
    and "openai_create env key (full_model_name c) [OUser query] (Some (openai_tools tools)) w1
           = (Inr (message # rest), w2)"
  shows "fst (process_query env c query w) =
           finish (None :: exn option,
                   openai_loop env c (tool_calls_of message) (openai_first query tools message rest w2))"
  using assms process_openai_query_first_ok [of c key env query tools w1 message rest w2 "[ListTools (Inr tools)]"]
  by (simp add: process_query_def process_openai_query_def openai_first_def)




subsection \<open>A tool execution that fails\<close>

text \<open>
  Claim C3, as amended. When the execution of a requested tool raises, the step appends the
  one line \<open>[Error calling tool <name>: <cause>]\<close> to the output buffer and nothing to the
  conversation (no request, no tool result); it makes no provider call; the loop goes on
  with the remaining requests of the same response.
\<close>

theorem failed_tool_call_absorbed:
  "(s1 = anthropic_loop env c ts pre s
      \<and> session_call_tool env c n a (world s1, trace s1) = (Inl e, w1, tr1)
      \<and> s2 = anthropic_block env c ts (ToolUseBlock i n a) s1
    \<longrightarrow> final_text s2 = final_text s1 @ [''[Error calling tool '' @ n @ '': '' @ str_exn e @ '']'']
        \<and> messages s2 = messages s1
        \<and> assistant_message_content s2 = assistant_message_content s1
        \<and> filter is_provider_call (trace s2) = filter is_provider_call (trace s1)
        \<and> anthropic_loop env c ts (pre @ ToolUseBlock i n a # post) s = anthropic_loop env c ts post s2)
   \<and> (t1 = openai_loop env c pre' t
      \<and> json_loads env (tc_arguments tc) = Some a'
      \<and> session_call_tool env c (tc_name tc) a' (world t1, trace t1) = (Inl e', w1', tr1')
      \<and> t2 = openai_tool_call env c tc t1
    \<longrightarrow> final_text t2 = final_text t1 @ [''[Error calling tool '' @ tc_name tc @ '': '' @ str_exn e' @ '']'']
        \<and> messages t2 = messages t1
        \<and> filter is_provider_call (trace t2) = filter is_provider_call (trace t1)
        \<and> openai_loop env c (pre' @ tc # post') t = openai_loop env c post' t2)"
proof (intro conjI impI)
  assume h: "s1 = anthropic_loop env c ts pre s
      \<and> session_call_tool env c n a (world s1, trace s1) = (Inl e, w1, tr1)
      \<and> s2 = anthropic_block env c ts (ToolUseBlock i n a) s1"
  have call: "session_call_tool env c n a (world s1, trace s1) = (Inl e, w1, tr1)"
    using h by blast
  have step: "s2 = anthropic_block env c ts (ToolUseBlock i n a) s1"
    using h by blast
  have s2: "s2 = s1\<lparr>final_text := final_text s1 @ [tool_error_line n e], world := w1, trace := tr1\<rparr>"
    unfolding step using call by simp
  have tr: "tr1 = trace s1 \<or> tr1 = trace s1 @ [CallTool n a (Inl e)]"
    using h session_call_tool_cases [of env c n a "world s1" "trace s1" "Inl e" w1 tr1] by auto
  show "final_text s2 = final_text s1 @ [''[Error calling tool '' @ n @ '': '' @ str_exn e @ '']'']"
    using s2 by (simp add: tool_error_line_def)
  show "messages s2 = messages s1" using s2 by simp
  show "assistant_message_content s2 = assistant_message_content s1" using s2 by simp
  show "filter is_provider_call (trace s2) = filter is_provider_call (trace s1)"
    using s2 tr by auto
  show "anthropic_loop env c ts (pre @ ToolUseBlock i n a # post) s = anthropic_loop env c ts post s2"
    using h anthropic_loop_split [of env c ts pre "ToolUseBlock i n a" post s] by metis
next
  assume h: "t1 = openai_loop env c pre' t
      \<and> json_loads env (tc_arguments tc) = Some a'
      \<and> session_call_tool env c (tc_name tc) a' (world t1, trace t1) = (Inl e', w1', tr1')
      \<and> t2 = openai_tool_call env c tc t1"
  have decoded: "json_loads env (tc_arguments tc) = Some a'"
    using h by blast
  have call: "session_call_tool env c (tc_name tc) a' (world t1, trace t1) = (Inl e', w1', tr1')"
    using h by blast
  have step: "t2 = openai_tool_call env c tc t1"
    using h by blast
  have t2: "t2 = t1\<lparr>final_text := final_text t1 @ [tool_error_line (tc_name tc) e'], world := w1', trace := tr1'\<rparr>"
    unfolding step using decoded call by (simp add: openai_tool_call_def)
  have tr: "tr1' = trace t1 \<or> tr1' = trace t1 @ [CallTool (tc_name tc) a' (Inl e')]"
    using h session_call_tool_cases [of env c "tc_name tc" a' "world t1" "trace t1" "Inl e'" w1' tr1'] by auto
  show "final_text t2 = final_text t1 @ [''[Error calling tool '' @ tc_name tc @ '': '' @ str_exn e' @ '']'']"
    using t2 by (simp add: tool_error_line_def)
  show "messages t2 = messages t1" using t2 by simp
  show "filter is_provider_call (trace t2) = filter is_provider_call (trace t1)"
    using t2 tr by auto
  show "openai_loop env c (pre' @ tc # post') t = openai_loop env c post' t2"
    using h openai_loop_split [of env c pre' tc post' t] by metis
qed

theorem failed_tool_call_absorbed_witness:
  "final_text (anthropic_block scripted claude_client [] (ToolUseBlock ''t1'' ''get_weather'' paris)
       (anthropic_start ''q'' failing_tool_script))
     = [''[Error calling tool get_weather: timeout]'']
   \<and> messages (anthropic_block scripted claude_client [] (ToolUseBlock ''t1'' ''get_weather'' paris)
       (anthropic_start ''q'' failing_tool_script))
     = [RUserText ''q'']
   \<and> final_text (openai_tool_call scripted gpt_client (ToolCall ''c3'' ''get_weather'' ''{}'')
       (openai_start ''q'' failing_tool_script))
     = [''[Error calling tool get_weather: timeout]'']
   \<and> messages (openai_tool_call scripted gpt_client (ToolCall ''c3'' ''get_weather'' ''{}'')
       (openai_start ''q'' failing_tool_script))
     = [OUser ''q'']"
proof -
  have a: "anthropic_start ''q'' failing_tool_script =
        anthropic_loop scripted claude_client [] [] (anthropic_start ''q'' failing_tool_script)
      \<and> session_call_tool scripted claude_client ''get_weather'' paris
          (world (anthropic_start ''q'' failing_tool_script), trace (anthropic_start ''q'' failing_tool_script))
         = (Inl (ExternalError ''timeout''), failing_tool_script\<lparr>tool_answers := []\<rparr>,
            [CallTool ''get_weather'' paris (Inl (ExternalError ''timeout''))])
      \<and> anthropic_block scripted claude_client [] (ToolUseBlock ''t1'' ''get_weather'' paris)
          (anthropic_start ''q'' failing_tool_script)
        = anthropic_block scripted claude_client [] (ToolUseBlock ''t1'' ''get_weather'' paris)
          (anthropic_start ''q'' failing_tool_script)"
    by (simp add: session_call_tool_def scripted_def claude_client_def failing_tool_script_def
        anthropic_start_def)
  have b: "openai_start ''q'' failing_tool_script =
        openai_loop scripted gpt_client [] (openai_start ''q'' failing_tool_script)
      \<and> json_loads scripted (tc_arguments (ToolCall ''c3'' ''get_weather'' ''{}'')) = Some (JObj [])
      \<and> session_call_tool scripted gpt_client (tc_name (ToolCall ''c3'' ''get_weather'' ''{}'')) (JObj [])
          (world (openai_start ''q'' failing_tool_script), trace (openai_start ''q'' failing_tool_script))
         = (Inl (ExternalError ''timeout''), failing_tool_script\<lparr>tool_answers := []\<rparr>,
            [CallTool ''get_weather'' (JObj []) (Inl (ExternalError ''timeout''))])
      \<and> openai_tool_call scripted gpt_client (ToolCall ''c3'' ''get_weather'' ''{}'')
          (openai_start ''q'' failing_tool_script)
        = openai_tool_call scripted gpt_client (ToolCall ''c3'' ''get_weather'' ''{}'')
          (openai_start ''q'' failing_tool_script)"
    by (simp add: session_call_tool_def scripted_def gpt_client_def failing_tool_script_def
        openai_start_def)
  show ?thesis
    using failed_tool_call_absorbed [THEN conjunct1, THEN mp, OF a]
          failed_tool_call_absorbed [THEN conjunct2, THEN mp, OF b]
    by (simp add: anthropic_start_def openai_start_def)
qed

text \<open>
  The claim as stated fails: after a failed execution the conversation holds the user turn
  only, for both providers; no tool result was appended.
\<close>

theorem failed_tool_call_leaves_no_tool_result:
  "anthropic_conversation
     (snd (process_anthropic_run scripted claude_client ''q'' [weather_tool] (failing_tool_script, [])))
     = [AUserText ''q'']
   \<and> final_text
     (snd (process_anthropic_run scripted claude_client ''q'' [weather_tool] (failing_tool_script, [])))
     = [''[Error calling tool get_weather: timeout]'']
   \<and> messages
     (snd (process_openai_run scripted gpt_client ''q'' [weather_tool]
        (\<lparr>a_answers = [], o_answers = [Inr [OReply None (Some [ToolCall ''c3'' ''get_weather'' ''{}''])]],
          tool_answers = [Inl (ExternalError ''timeout'')]\<rparr>, [])))
     = [OUser ''q'']"
  by (simp add: process_anthropic_run_def process_openai_run_def anthropic_conversation_def
      anthropic_messages_create_def openai_chat_create_def session_call_tool_def resolve_def
      openai_tool_call_def tool_error_line_def or_empty_def
      scripted_def claude_client_def gpt_client_def failing_tool_script_def Let_def)

subsection \<open>Arguments that do not decode (provider B)\<close>

lemma openai_tool_call_same_conversation:
  assumes "messages s = messages s'" "world s = world s'" "trace s = trace s'"
  shows "messages (openai_tool_call env c tc s) = messages (openai_tool_call env c tc s')
       \<and> world (openai_tool_call env c tc s) = world (openai_tool_call env c tc s')
       \<and> trace (openai_tool_call env c tc s) = trace (openai_tool_call env c tc s')"
  using assms
  by (auto simp: openai_tool_call_def Let_def split: prod.splits sum.splits list.splits option.splits)

lemma openai_loop_same_conversation:
  assumes "messages s = messages s'" "world s = world s'" "trace s = trace s'"
  shows "messages (openai_loop env c tcs s) = messages (openai_loop env c tcs s')
       \<and> world (openai_loop env c tcs s) = world (openai_loop env c tcs s')
       \<and> trace (openai_loop env c tcs s) = trace (openai_loop env c tcs s')"
  using assms
proof (induction tcs arbitrary: s s')
  case Nil
  then show ?case by simp
next
  case (Cons tc tcs)
  have step: "messages (openai_tool_call env c tc s) = messages (openai_tool_call env c tc s')
       \<and> world (openai_tool_call env c tc s) = world (openai_tool_call env c tc s')
       \<and> trace (openai_tool_call env c tc s) = trace (openai_tool_call env c tc s')"
    using Cons.prems by (rule openai_tool_call_same_conversation)
  show ?case
    using Cons.IH [of "openai_tool_call env c tc s" "openai_tool_call env c tc s'"] step by simp
qed

lemma parse_error_line_visible:
  assumes "json_loads env (tc_arguments tc) = None"
  shows "parse_error_line (tc_name tc) \<in> set (final_text (openai_loop env c (pre @ tc # post) s))"
proof -
  let ?s1 = "openai_loop env c pre s"
  have "final_text (openai_tool_call env c tc ?s1) = final_text ?s1 @ [parse_error_line (tc_name tc)]"
    using assms by (simp add: openai_tool_call_def)
  then have "parse_error_line (tc_name tc) \<in> set (final_text (openai_tool_call env c tc ?s1))"
    by simp
  then have "parse_error_line (tc_name tc)
      \<in> set (final_text (openai_loop env c post (openai_tool_call env c tc ?s1)))"
    using set_mono_prefix [OF openai_loop_final_text_prefix [of "openai_tool_call env c tc ?s1" env c post]]
    by auto
  then show ?thesis
    by (simp add: openai_loop_split)
qed

text \<open>
  Claim C5. When the arguments of a tool call of provider B do not decode, the step for
  that call only appends the line \<open>[Error: Could not parse arguments for <name>]\<close>:
  conversation, world and log stay as they are, so no tool and no provider is called for
  it. The loop goes on with the remaining calls, and conversation, world and log at the
  end are those of the same run without that call. In a query whose first response holds
  such a call, the tools executed are exactly the calls before it and the calls after it
  whose arguments decode, in their order and with the decoded arguments; the log of the
  query is the log of the loop over the response without that call; the query returns
  its text, which holds the error line.
\<close>

theorem undecodable_arguments_skip_one_call:
  "(json_loads env (tc_arguments tc) = None
     \<and> s1 = openai_loop env c pre s
     \<and> s2 = openai_tool_call env c tc s1
    \<longrightarrow> s2 = s1\<lparr>final_text := final_text s1 @ [''[Error: Could not parse arguments for '' @ tc_name tc @ '']'']\<rparr>
        \<and> openai_loop env c (pre @ tc # post) s = openai_loop env c post s2
        \<and> messages (openai_loop env c (pre @ tc # post) s) = messages (openai_loop env c (pre @ post) s)
        \<and> world (openai_loop env c (pre @ tc # post) s) = world (openai_loop env c (pre @ post) s)
        \<and> trace (openai_loop env c (pre @ tc # post) s) = trace (openai_loop env c (pre @ post) s))
   \<and> (session c = Some sid \<and> list_tools env sid w = (Inr tools, w1) \<and> provider c = OPENAI
      \<and> openai c = Some key
      \<and> openai_create env key (full_model_name c) [OUser query] (Some (openai_tools tools)) w1
            = (Inr (message # rest), w2)
      \<and> tool_calls_of message = pre @ tc # post
      \<and> json_loads env (tc_arguments tc) = None
    \<longrightarrow> called (events (fst (process_query env c query w)))
          = decoded_calls env pre @ decoded_calls env post
        \<and> events (fst (process_query env c query w))
          = trace (openai_loop env c (pre @ post) (openai_first query tools message rest w2))
        \<and> (\<exists>text. returned (fst (process_query env c query w)) = Inr text
              \<and> sublist (''[Error: Could not parse arguments for '' @ tc_name tc @ '']'') text))"
proof (intro conjI impI)
  assume h: "json_loads env (tc_arguments tc) = None
     \<and> s1 = openai_loop env c pre s
     \<and> s2 = openai_tool_call env c tc s1"
  have undecodable: "json_loads env (tc_arguments tc) = None"
    using h by blast
  have step: "s2 = openai_tool_call env c tc s1"
    using h by blast
  have s2: "s2 = s1\<lparr>final_text := final_text s1 @ [parse_error_line (tc_name tc)]\<rparr>"
    unfolding step using undecodable by (simp add: openai_tool_call_def)
  have whole: "openai_loop env c (pre @ tc # post) s = openai_loop env c post s2"
    using h openai_loop_split [of env c pre tc post s] by metis
  have without: "openai_loop env c (pre @ post) s = openai_loop env c post s1"
    using h openai_loop_append [of env c pre post s] by metis
  have same: "messages (openai_loop env c post s2) = messages (openai_loop env c post s1)
       \<and> world (openai_loop env c post s2) = world (openai_loop env c post s1)
       \<and> trace (openai_loop env c post s2) = trace (openai_loop env c post s1)"
    by (rule openai_loop_same_conversation) (simp_all add: s2)
  show "s2 = s1\<lparr>final_text := final_text s1 @ [''[Error: Could not parse arguments for '' @ tc_name tc @ '']'']\<rparr>"
    using s2 by (simp add: parse_error_line_def)
  show "openai_loop env c (pre @ tc # post) s = openai_loop env c post s2"
    by (rule whole)
  show "messages (openai_loop env c (pre @ tc # post) s) = messages (openai_loop env c (pre @ post) s)"
    using whole without same by simp
  show "world (openai_loop env c (pre @ tc # post) s) = world (openai_loop env c (pre @ post) s)"
    using whole without same by simp
  show "trace (openai_loop env c (pre @ tc # post) s) = trace (openai_loop env c (pre @ post) s)"
    using whole without same by simp
next
  assume h: "session c = Some sid \<and> list_tools env sid w = (Inr tools, w1) \<and> provider c = OPENAI
      \<and> openai c = Some key
      \<and> openai_create env key (full_model_name c) [OUser query] (Some (openai_tools tools)) w1
            = (Inr (message # rest), w2)
      \<and> tool_calls_of message = pre @ tc # post
      \<and> json_loads env (tc_arguments tc) = None"
  define s0 where "s0 = openai_first query tools message rest w2"
  define s where "s = openai_loop env c (pre @ tc # post) s0"
  have undecodable: "json_loads env (tc_arguments tc) = None"
    using h by blast
  have calls: "tool_calls_of message = pre @ tc # post"
    using h by blast
  have sess: "session c \<noteq> None"
    using h by auto
  have "fst (process_query env c query w) =
      finish (None :: exn option, openai_loop env c (tool_calls_of message) (openai_first query tools message rest w2))"
    using h by (intro process_query_openai_ok) blast+
  then have out: "fst (process_query env c query w) =
      \<lparr>returned = Inr (join_nl (final_text s)), world_after = world s, events = trace s\<rparr>"
    by (simp add: finish_def s_def s0_def calls)
  have "called (trace s) = called (trace s0) @ decoded_calls env (pre @ tc # post)"
    unfolding s_def using sess by (rule openai_loop_called)
  moreover have "decoded_calls env (pre @ tc # post) = decoded_calls env pre @ decoded_calls env post"
    using decoded_calls_append [of env pre "tc # post"] undecodable by simp
  moreover have "called (trace s0) = []"
    by (simp add: s0_def openai_first_def)
  ultimately have c1: "called (trace s) = decoded_calls env pre @ decoded_calls env post"
    by simp
  have "trace (openai_loop env c post (openai_tool_call env c tc (openai_loop env c pre s0)))
      = trace (openai_loop env c post (openai_loop env c pre s0))"
    using openai_loop_same_conversation
            [of "openai_tool_call env c tc (openai_loop env c pre s0)" "openai_loop env c pre s0" env c post]
          undecodable
    by (simp add: openai_tool_call_def)
  then have c2: "trace s = trace (openai_loop env c (pre @ post) s0)"
    by (simp add: s_def openai_loop_split openai_loop_append)
  have "parse_error_line (tc_name tc) \<in> set (final_text s)"
    unfolding s_def using undecodable by (rule parse_error_line_visible)
  then have "sublist (parse_error_line (tc_name tc)) (join_nl (final_text s))"
    by (rule sublist_join_nl)
  then have c3: "sublist (''[Error: Could not parse arguments for '' @ tc_name tc @ '']'') (join_nl (final_text s))"
    by (simp add: parse_error_line_def)
  show "called (events (fst (process_query env c query w)))
          = decoded_calls env pre @ decoded_calls env post"
    using out c1 by simp
  show "events (fst (process_query env c query w))
          = trace (openai_loop env c (pre @ post) (openai_first query tools message rest w2))"
    using out c2 by (simp add: s0_def)
  show "\<exists>text. returned (fst (process_query env c query w)) = Inr text
              \<and> sublist (''[Error: Could not parse arguments for '' @ tc_name tc @ '']'') text"
    using out c3 by simp
qed

theorem undecodable_arguments_skip_one_call_witness:
  "openai_tool_call scripted gpt_client (ToolCall ''c2'' ''get_weather'' ''{oops'') (openai_start ''q'' gpt_script)
     = (openai_start ''q'' gpt_script)\<lparr>final_text := [''[Error: Could not parse arguments for get_weather]'']\<rparr>
   \<and> trace (openai_loop scripted gpt_client
        ([] @ ToolCall ''c2'' ''get_weather'' ''{oops'' # [ToolCall ''c3'' ''get_weather'' ''{}''])
        (openai_start ''q'' gpt_script))
     = trace (openai_loop scripted gpt_client ([] @ [ToolCall ''c3'' ''get_weather'' ''{}''])
        (openai_start ''q'' gpt_script))
   \<and> called (events (fst (process_query scripted gpt_client ''q'' gpt_script)))
     = [(''get_weather'', paris), (''get_weather'', JObj [])]
   \<and> (\<exists>text. returned (fst (process_query scripted gpt_client ''q'' gpt_script)) = Inr text
         \<and> sublist ''[Error: Could not parse arguments for get_weather]'' text)"
proof -
  have a: "json_loads scripted (tc_arguments (ToolCall ''c2'' ''get_weather'' ''{oops'')) = None
     \<and> openai_start ''q'' gpt_script = openai_loop scripted gpt_client [] (openai_start ''q'' gpt_script)
     \<and> openai_tool_call scripted gpt_client (ToolCall ''c2'' ''get_weather'' ''{oops'')
          (openai_start ''q'' gpt_script)
       = openai_tool_call scripted gpt_client (ToolCall ''c2'' ''get_weather'' ''{oops'')
          (openai_start ''q'' gpt_script)"
    by (simp add: scripted_def paris_arguments_def)
  have b: "session gpt_client = Some 1
      \<and> list_tools scripted 1 gpt_script = (Inr [weather_tool], gpt_script)
      \<and> provider gpt_client = OPENAI
      \<and> openai gpt_client = Some ''key-o''
      \<and> openai_create scripted ''key-o'' (full_model_name gpt_client) [OUser ''q'']
           (Some (openai_tools [weather_tool])) gpt_script
         = (Inr (OReply None (Some three_calls) # []),
            gpt_script\<lparr>o_answers := [Inl (ExternalError ''rate limit'')]\<rparr>)
      \<and> tool_calls_of (OReply None (Some three_calls))
         = [ToolCall ''c1'' ''get_weather'' paris_arguments]
           @ ToolCall ''c2'' ''get_weather'' ''{oops'' # [ToolCall ''c3'' ''get_weather'' ''{}'']
      \<and> json_loads scripted (tc_arguments (ToolCall ''c2'' ''get_weather'' ''{oops'')) = None"
    by (simp add: scripted_def gpt_client_def gpt_script_def tool_calls_of_def three_calls_def
        paris_arguments_def)
  have d: "decoded_calls scripted [ToolCall ''c1'' ''get_weather'' paris_arguments] = [(''get_weather'', paris)]"
          "decoded_calls scripted [ToolCall ''c3'' ''get_weather'' ''{}''] = [(''get_weather'', JObj [])]"
    by (simp_all add: scripted_def paris_arguments_def)
  note th = undecodable_arguments_skip_one_call
              [THEN conjunct1, THEN mp, OF a, of "[ToolCall ''c3'' ''get_weather'' ''{}'']"]
  note tq = undecodable_arguments_skip_one_call [THEN conjunct2, THEN mp, OF b]
  have ft: "final_text (openai_start ''q'' gpt_script) = []"
    by (simp add: openai_start_def)
  have first: "openai_tool_call scripted gpt_client (ToolCall ''c2'' ''get_weather'' ''{oops'') (openai_start ''q'' gpt_script)
     = (openai_start ''q'' gpt_script)\<lparr>final_text := [''[Error: Could not parse arguments for get_weather]'']\<rparr>"
    using th [THEN conjunct1] by (simp add: ft)
  have second: "trace (openai_loop scripted gpt_client
        ([] @ ToolCall ''c2'' ''get_weather'' ''{oops'' # [ToolCall ''c3'' ''get_weather'' ''{}''])
        (openai_start ''q'' gpt_script))
     = trace (openai_loop scripted gpt_client ([] @ [ToolCall ''c3'' ''get_weather'' ''{}''])
        (openai_start ''q'' gpt_script))"
    using th by blast
  have third: "called (events (fst (process_query scripted gpt_client ''q'' gpt_script)))
     = [(''get_weather'', paris), (''get_weather'', JObj [])]"
    using tq [THEN conjunct1] by (simp only: d append_Cons append_Nil)
  have fourth: "\<exists>text. returned (fst (process_query scripted gpt_client ''q'' gpt_script)) = Inr text
         \<and> sublist ''[Error: Could not parse arguments for get_weather]'' text"
    using tq [THEN conjunct2, THEN conjunct2] by simp
  show ?thesis
    using first second third fourth by blast
qed

subsection \<open>The trace lines of a tool execution\<close>





subsection \<open>Provider failures\<close>

lemma anthropic_block_failures_visible:
  "AnthropicCreate ms ts' (Inl e) \<in> set (trace (anthropic_block env c ts b s)) \<Longrightarrow>
     AnthropicCreate ms ts' (Inl e) \<in> set (trace s)
     \<or> followup_error_line e \<in> set (final_text (anthropic_block env c ts b s))"
  by (cases b) (auto simp: Let_def dest!: session_call_tool_cases anthropic_messages_create_cases
       split: prod.splits sum.splits list.splits block.splits)

lemma anthropic_loop_failures_visible:
  "AnthropicCreate ms ts' (Inl e) \<in> set (trace (anthropic_loop env c ts bs s)) \<Longrightarrow>
     AnthropicCreate ms ts' (Inl e) \<in> set (trace s)
     \<or> followup_error_line e \<in> set (final_text (anthropic_loop env c ts bs s))"
proof (induction bs arbitrary: s)
  case Nil
  then show ?case by simp
next
  case (Cons b bs)
  let ?s' = "anthropic_block env c ts b s"
  from Cons.prems have "AnthropicCreate ms ts' (Inl e) \<in> set (trace (anthropic_loop env c ts bs ?s'))"
    by simp
  then consider "AnthropicCreate ms ts' (Inl e) \<in> set (trace ?s')"
    | "followup_error_line e \<in> set (final_text (anthropic_loop env c ts bs ?s'))"
    using Cons.IH by blast
  then show ?case
  proof cases
    case 1
    then consider "AnthropicCreate ms ts' (Inl e) \<in> set (trace s)"
      | "followup_error_line e \<in> set (final_text ?s')"
      using anthropic_block_failures_visible by blast
    then show ?thesis
    proof cases
      case 1
      then show ?thesis by simp
    next
      case 2
      then show ?thesis
        using set_mono_prefix [OF anthropic_loop_final_text_prefix [of ?s' env c ts bs]] by auto
    qed
  next
    case 2
    then show ?thesis by simp
  qed
qed

lemma openai_tool_call_failures_visible:
  "OpenAICreate ms ts' (Inl e) \<in> set (trace (openai_tool_call env c tc s)) \<Longrightarrow>
     OpenAICreate ms ts' (Inl e) \<in> set (trace s)
     \<or> followup_error_line e \<in> set (final_text (openai_tool_call env c tc s))"
  by (auto simp: openai_tool_call_def Let_def dest!: session_call_tool_cases openai_chat_create_cases
       split: prod.splits sum.splits list.splits option.splits)

lemma openai_loop_failures_visible:
  "OpenAICreate ms ts' (Inl e) \<in> set (trace (openai_loop env c tcs s)) \<Longrightarrow>
     OpenAICreate ms ts' (Inl e) \<in> set (trace s)
     \<or> followup_error_line e \<in> set (final_text (openai_loop env c tcs s))"
proof (induction tcs arbitrary: s)
  case Nil
  then show ?case by simp
next
  case (Cons tc tcs)
  let ?s' = "openai_tool_call env c tc s"
  from Cons.prems have "OpenAICreate ms ts' (Inl e) \<in> set (trace (openai_loop env c tcs ?s'))"
    by simp
  then consider "OpenAICreate ms ts' (Inl e) \<in> set (trace ?s')"
    | "followup_error_line e \<in> set (final_text (openai_loop env c tcs ?s'))"
    using Cons.IH by blast
  then show ?case
  proof cases
    case 1
    then consider "OpenAICreate ms ts' (Inl e) \<in> set (trace s)"
      | "followup_error_line e \<in> set (final_text ?s')"
      using openai_tool_call_failures_visible by blast
    then show ?thesis
    proof cases
      case 1
      then show ?thesis by simp
    next
      case 2
      then show ?thesis
        using set_mono_prefix [OF openai_loop_final_text_prefix [of ?s' env c tcs]] by auto
    qed
  next
    case 2
    then show ?thesis by simp
  qed
qed

lemma process_anthropic_query_first_failed:
  assumes "anthropic c = Some key"
    and "anthropic_create env key (full_model_name c) [AUserText query] (anthropic_tools tools) w1 = (Inl e, w2)"
  shows "process_anthropic_query env c query tools (w1, tr) =
           \<lparr>returned = Inl e, world_after = w2,
            events = tr @ [AnthropicCreate [AUserText query] (anthropic_tools tools) (Inl e)]\<rparr>"
  using assms
  by (simp add: process_anthropic_query_def process_anthropic_run_def finish_def
      anthropic_messages_create_def resolve_def Let_def)

lemma process_openai_query_first_failed:
  assumes "openai c = Some key"
    and "openai_create env key (full_model_name c) [OUser query] (Some (openai_tools tools)) w1 = (Inl e, w2)"
  shows "process_openai_query env c query tools (w1, tr) =
           \<lparr>returned = Inl e, world_after = w2,
            events = tr @ [OpenAICreate [OUser query] (Some (openai_tools tools)) (Inl e)]\<rparr>"
  using assms
  by (simp add: process_openai_query_def process_openai_run_def finish_def
      openai_chat_create_def Let_def)

text \<open>The run of \<open>two_tools_script\<close>, evaluated.\<close>

lemma two_tools_run:
  "process_anthropic_run scripted claude_client ''q'' [weather_tool] (two_tools_script, [ListTools (Inr [weather_tool])]) =
    (None,
     \<lparr>messages = [RUserText ''q'', RAssistantShared, RToolResult ''t1'' ''sunny'',
                  RAssistantShared, RToolResult ''t2'' ''rain''],
      final_text = [''Let me check.'',
                    calling_line scripted ''get_weather'' paris, result_line ''sunny'',
                    ''Sunny in Paris.'',
                    calling_line scripted ''get_weather'' (JObj []), result_line ''rain'',
                    followup_error_line (ExternalError ''rate limit'')],
      world = \<lparr>a_answers = [], o_answers = [], tool_answers = []\<rparr>,
      trace = [ListTools (Inr [weather_tool]),
               AnthropicCreate [AUserText ''q''] (anthropic_tools [weather_tool]) (Inr two_tools_blocks),
               CallTool ''get_weather'' paris (Inr [Some ''sunny'']),
               AnthropicCreate
                 [AUserText ''q'',
                  AAssistant [TextBlock ''Let me check.'', ToolUseBlock ''t1'' ''get_weather'' paris],
                  AToolResult ''t1'' ''sunny'']
                 (anthropic_tools [weather_tool]) (Inr [TextBlock ''Sunny in Paris.'']),
               CallTool ''get_weather'' (JObj []) (Inr [Some ''rain'']),
               AnthropicCreate
                 [AUserText ''q'',
                  AAssistant two_tools_blocks,
                  AToolResult ''t1'' ''sunny'',
                  AAssistant two_tools_blocks,
                  AToolResult ''t2'' ''rain'']
                 (anthropic_tools [weather_tool]) (Inl (ExternalError ''rate limit''))],
      assistant_message_content = two_tools_blocks\<rparr>)"
  by (simp add: process_anthropic_run_def anthropic_messages_create_def session_call_tool_def
      resolve_def tool_result_text_def two_tools_blocks_def
      scripted_def claude_client_def two_tools_script_def Let_def)

lemma two_tools_query:
  "fst (process_query scripted claude_client ''q'' two_tools_script) =
     finish (process_anthropic_run scripted claude_client ''q'' [weather_tool]
               (two_tools_script, [ListTools (Inr [weather_tool])]))"
  by (simp add: process_query_def process_anthropic_query_def scripted_def claude_client_def)

text \<open>The run of \<open>gpt_script\<close>, evaluated.\<close>

lemma gpt_run:
  "process_openai_run scripted gpt_client ''q'' [weather_tool] (gpt_script, [ListTools (Inr [weather_tool])]) =
    (None,
     \<lparr>messages = [OUser ''q'', OAssistantToolCall ''c1'' ''get_weather'' paris_arguments,
                  OTool ''c1'' ''sunny''],
      final_text = [calling_line scripted ''get_weather'' paris, result_line ''sunny'',
                    followup_error_line (ExternalError ''rate limit''),
                    parse_error_line ''get_weather'',
                    tool_error_line ''get_weather'' (ExternalError ''timeout'')],
      world = \<lparr>a_answers = [], o_answers = [], tool_answers = []\<rparr>,
      trace = [ListTools (Inr [weather_tool]),
               OpenAICreate [OUser ''q''] (Some (openai_tools [weather_tool]))
                 (Inr [OReply None (Some three_calls)]),
               CallTool ''get_weather'' paris (Inr [Some ''sunny'']),
               OpenAICreate
                 [OUser ''q'', OAssistantToolCall ''c1'' ''get_weather'' paris_arguments,
                  OTool ''c1'' ''sunny'']
                 None (Inl (ExternalError ''rate limit'')),
               CallTool ''get_weather'' (JObj []) (Inl (ExternalError ''timeout''))]\<rparr>)"
  by (simp add: process_openai_run_def openai_chat_create_def openai_tool_call_def
      session_call_tool_def tool_result_text_def or_empty_def three_calls_def paris_arguments_def
      scripted_def gpt_client_def gpt_script_def Let_def)

lemma gpt_query:
  "fst (process_query scripted gpt_client ''q'' gpt_script) =
     finish (process_openai_run scripted gpt_client ''q'' [weather_tool]
               (gpt_script, [ListTools (Inr [weather_tool])]))"
  by (simp add: process_query_def process_openai_query_def scripted_def gpt_client_def)

text \<open>The two runs of \<open>failed_followup_script\<close>, evaluated.\<close>

lemma failed_followup_run_anthropic:
  "fst (process_query scripted claude_client ''q'' failed_followup_script) =
     \<lparr>returned = Inr (join_nl
        [''Let me check.'',
         calling_line scripted ''get_weather'' paris, result_line ''sunny'',
         followup_error_line (ExternalError ''rate limit''),
         calling_line scripted ''get_weather'' (JObj []), result_line ''rain'',
         ''Rain in Oslo.'']),
      world_after = failed_followup_script\<lparr>a_answers := [], tool_answers := []\<rparr>,
      events =
        [ListTools (Inr [weather_tool]),
         AnthropicCreate [AUserText ''q''] (anthropic_tools [weather_tool]) (Inr two_tools_blocks),
         CallTool ''get_weather'' paris (Inr [Some ''sunny'']),
         AnthropicCreate
           [AUserText ''q'',
            AAssistant [TextBlock ''Let me check.'', ToolUseBlock ''t1'' ''get_weather'' paris],
            AToolResult ''t1'' ''sunny'']
           (anthropic_tools [weather_tool]) (Inl (ExternalError ''rate limit'')),
         CallTool ''get_weather'' (JObj []) (Inr [Some ''rain'']),
         AnthropicCreate
           [AUserText ''q'',
            AAssistant two_tools_blocks, AToolResult ''t1'' ''sunny'',
            AAssistant two_tools_blocks, AToolResult ''t2'' ''rain'']
           (anthropic_tools [weather_tool]) (Inr [TextBlock ''Rain in Oslo.''])]\<rparr>"
  by (simp add: process_query_def process_anthropic_query_def process_anthropic_run_def finish_def
      anthropic_messages_create_def session_call_tool_def resolve_def tool_result_text_def
      two_tools_blocks_def scripted_def claude_client_def failed_followup_script_def Let_def)

lemma failed_followup_run_openai:
  "fst (process_query scripted gpt_client ''q'' failed_followup_script) =
     \<lparr>returned = Inr (join_nl
        [calling_line scripted ''get_weather'' paris, result_line ''sunny'',
         followup_error_line (ExternalError ''rate limit''),
         calling_line scripted ''get_weather'' (JObj []), result_line ''rain'',
         ''Rain in Oslo.'']),
      world_after = failed_followup_script\<lparr>o_answers := [], tool_answers := []\<rparr>,
      events =
        [ListTools (Inr [weather_tool]),
         OpenAICreate [OUser ''q''] (Some (openai_tools [weather_tool]))
           (Inr [OReply None (Some [ToolCall ''c1'' ''get_weather'' paris_arguments,
                                    ToolCall ''c3'' ''get_weather'' ''{}''])]),
         CallTool ''get_weather'' paris (Inr [Some ''sunny'']),
         OpenAICreate
           [OUser ''q'', OAssistantToolCall ''c1'' ''get_weather'' paris_arguments, OTool ''c1'' ''sunny'']
           None (Inl (ExternalError ''rate limit'')),
         CallTool ''get_weather'' (JObj []) (Inr [Some ''rain'']),
         OpenAICreate
           [OUser ''q'', OAssistantToolCall ''c1'' ''get_weather'' paris_arguments, OTool ''c1'' ''sunny'',
            OAssistantToolCall ''c3'' ''get_weather'' ''{}'', OTool ''c3'' ''rain'']
           None (Inr [OReply (Some ''Rain in Oslo.'') None])]\<rparr>"
  by (simp add: process_query_def process_openai_query_def process_openai_run_def finish_def
      openai_chat_create_def openai_tool_call_def session_call_tool_def tool_result_text_def
      or_empty_def paris_arguments_def scripted_def gpt_client_def failed_followup_script_def Let_def)

text \<open>
  Claim C4, as amended. When the first provider call of a query fails, \<open>process_query\<close>
  raises that failure, having called nothing but \<open>list_tools\<close> and the provider. When the
  first call returns (for provider B, with at least one choice), \<open>process_query\<close> returns a
  text whatever the later calls do, and for every follow-up provider call that failed the
  text contains the line \<open>[Error getting response after tool call: <cause>]\<close>. Such a
  failure does not end the query: every tool request of the first response is still
  executed (for provider B, every one whose arguments decode), and the provider is still
  called after each execution that returned.
\<close>

theorem provider_failure_first_or_followup:
  "(session c = Some sid \<and> list_tools env sid w = (Inr tools, w1) \<and> provider c = ANTHROPIC
      \<and> anthropic c = Some key
      \<and> anthropic_create env key (full_model_name c) [AUserText query] (anthropic_tools tools) w1
            = (Inl e, w2)
    \<longrightarrow> fst (process_query env c query w) =
          \<lparr>returned = Inl e, world_after = w2,
           events = [ListTools (Inr tools),
                     AnthropicCreate [AUserText query] (anthropic_tools tools) (Inl e)]\<rparr>)
   \<and> (session c = Some sid \<and> list_tools env sid w = (Inr tools, w1) \<and> provider c = ANTHROPIC
      \<and> anthropic c = Some key
      \<and> anthropic_create env key (full_model_name c) [AUserText query] (anthropic_tools tools) w1
            = (Inr blocks, w2)
    \<longrightarrow> (\<exists>text. returned (fst (process_query env c query w)) = Inr text
          \<and> (\<forall>ms ts e'. AnthropicCreate ms ts (Inl e') \<in> set (events (fst (process_query env c query w)))
                \<longrightarrow> sublist (''[Error getting response after tool call: '' @ str_exn e' @ '']'') text))
        \<and> called (events (fst (process_query env c query w))) = tool_uses blocks
        \<and> length (filter is_provider_call (events (fst (process_query env c query w))))
            = 1 + length (filter succeeded (events (fst (process_query env c query w)))))
   \<and> (session c = Some sid \<and> list_tools env sid w = (Inr tools, w1) \<and> provider c = OPENAI
      \<and> openai c = Some key
      \<and> openai_create env key (full_model_name c) [OUser query] (Some (openai_tools tools)) w1
            = (Inl e, w2)
    \<longrightarrow> fst (process_query env c query w) =
          \<lparr>returned = Inl e, world_after = w2,
           events = [ListTools (Inr tools),
                     OpenAICreate [OUser query] (Some (openai_tools tools)) (Inl e)]\<rparr>)
   \<and> (session c = Some sid \<and> list_tools env sid w = (Inr tools, w1) \<and> provider c = OPENAI
      \<and> openai c = Some key
      \<and> openai_create env key (full_model_name c) [OUser query] (Some (openai_tools tools)) w1
            = (Inr (message # rest), w2)
    \<longrightarrow> (\<exists>text. returned (fst (process_query env c query w)) = Inr text
          \<and> (\<forall>ms ts e'. OpenAICreate ms ts (Inl e') \<in> set (events (fst (process_query env c query w)))
                \<longrightarrow> sublist (''[Error getting response after tool call: '' @ str_exn e' @ '']'') text))
        \<and> called (events (fst (process_query env c query w))) = decoded_calls env (tool_calls_of message)
        \<and> length (filter is_provider_call (events (fst (process_query env c query w))))
            = 1 + length (filter succeeded (events (fst (process_query env c query w)))))"
proof (intro conjI impI)
  assume a: "session c = Some sid \<and> list_tools env sid w = (Inr tools, w1) \<and> provider c = ANTHROPIC
      \<and> anthropic c = Some key
      \<and> anthropic_create env key (full_model_name c) [AUserText query] (anthropic_tools tools) w1
            = (Inl e, w2)"
  then show "fst (process_query env c query w) =
          \<lparr>returned = Inl e, world_after = w2,
           events = [ListTools (Inr tools),
                     AnthropicCreate [AUserText query] (anthropic_tools tools) (Inl e)]\<rparr>"
    using process_anthropic_query_first_failed [of c key env query tools w1 e w2 "[ListTools (Inr tools)]"]
    by (simp add: process_query_def)
next
  assume a: "session c = Some sid \<and> list_tools env sid w = (Inr tools, w1) \<and> provider c = OPENAI
      \<and> openai c = Some key
      \<and> openai_create env key (full_model_name c) [OUser query] (Some (openai_tools tools)) w1
            = (Inl e, w2)"
  then show "fst (process_query env c query w) =
          \<lparr>returned = Inl e, world_after = w2,
           events = [ListTools (Inr tools),
                     OpenAICreate [OUser query] (Some (openai_tools tools)) (Inl e)]\<rparr>"
    using process_openai_query_first_failed [of c key env query tools w1 e w2 "[ListTools (Inr tools)]"]
    by (simp add: process_query_def)
next
  assume a: "session c = Some sid \<and> list_tools env sid w = (Inr tools, w1) \<and> provider c = ANTHROPIC
      \<and> anthropic c = Some key
      \<and> anthropic_create env key (full_model_name c) [AUserText query] (anthropic_tools tools) w1
            = (Inr blocks, w2)"
  define s0 where "s0 = anthropic_first query tools blocks w2"
  define s where "s = anthropic_loop env c (anthropic_tools tools) blocks s0"
  have "fst (process_query env c query w) = finish (None :: exn option, s)"
    unfolding s_def s0_def using a by (intro process_query_anthropic_ok) blast+
  then have out: "fst (process_query env c query w) =
      \<lparr>returned = Inr (join_nl (final_text s)), world_after = world s, events = trace s\<rparr>"
    by (simp add: finish_def)
  have sess: "session c \<noteq> None" and anth: "anthropic c \<noteq> None"
    using a by simp_all
  have tr0: "trace s0 = [ListTools (Inr tools),
      AnthropicCreate [AUserText query] (anthropic_tools tools) (Inr blocks)]"
    by (simp add: s0_def anthropic_first_def)
  have visible: "sublist (''[Error getting response after tool call: '' @ str_exn e' @ '']'') (join_nl (final_text s))"
    if "AnthropicCreate ms ts (Inl e') \<in> set (trace s)" for ms ts e'
  proof -
    have "AnthropicCreate ms ts (Inl e') \<notin> set (trace s0)"
      by (simp add: tr0)
    then have "followup_error_line e' \<in> set (final_text s)"
      using that anthropic_loop_failures_visible [of ms ts e' env c "anthropic_tools tools" blocks s0]
      by (auto simp: s_def)
    then have "sublist (followup_error_line e') (join_nl (final_text s))"
      by (rule sublist_join_nl)
    then show ?thesis
      by (simp add: followup_error_line_def)
  qed
  have "called (trace s) = called (trace s0) @ tool_uses blocks"
    unfolding s_def using sess by (rule anthropic_loop_called)
  then have c1: "called (trace s) = tool_uses blocks"
    by (simp add: tr0)
  have "balance (trace s0) (trace s)"
    unfolding s_def using sess anth by (rule anthropic_loop_balance)
  then have c2: "length (filter is_provider_call (trace s)) = 1 + length (filter succeeded (trace s))"
    by (simp add: balance_def tr0)
  show "\<exists>text. returned (fst (process_query env c query w)) = Inr text
          \<and> (\<forall>ms ts e'. AnthropicCreate ms ts (Inl e') \<in> set (events (fst (process_query env c query w)))
                \<longrightarrow> sublist (''[Error getting response after tool call: '' @ str_exn e' @ '']'') text)"
    using out visible by simp
  show "called (events (fst (process_query env c query w))) = tool_uses blocks"
    using out c1 by simp
  show "length (filter is_provider_call (events (fst (process_query env c query w))))
            = 1 + length (filter succeeded (events (fst (process_query env c query w))))"
    using out c2 by simp
next
  assume a: "session c = Some sid \<and> list_tools env sid w = (Inr tools, w1) \<and> provider c = OPENAI
      \<and> openai c = Some key
      \<and> openai_create env key (full_model_name c) [OUser query] (Some (openai_tools tools)) w1
            = (Inr (message # rest), w2)"
  define s0 where "s0 = openai_first query tools message rest w2"
  define s where "s = openai_loop env c (tool_calls_of message) s0"
  have "fst (process_query env c query w) = finish (None :: exn option, s)"
    unfolding s_def s0_def using a by (intro process_query_openai_ok) blast+
  then have out: "fst (process_query env c query w) =
      \<lparr>returned = Inr (join_nl (final_text s)), world_after = world s, events = trace s\<rparr>"
    by (simp add: finish_def)
  have sess: "session c \<noteq> None" and oai: "openai c \<noteq> None"
    using a by simp_all
  have tr0: "trace s0 = [ListTools (Inr tools),
      OpenAICreate [OUser query] (Some (openai_tools tools)) (Inr (message # rest))]"
    by (simp add: s0_def openai_first_def)
  have visible: "sublist (''[Error getting response after tool call: '' @ str_exn e' @ '']'') (join_nl (final_text s))"
    if "OpenAICreate ms ts (Inl e') \<in> set (trace s)" for ms ts e'
  proof -
    have "OpenAICreate ms ts (Inl e') \<notin> set (trace s0)"
      by (simp add: tr0)
    then have "followup_error_line e' \<in> set (final_text s)"
      using that openai_loop_failures_visible [of ms ts e' env c "tool_calls_of message" s0]
      by (auto simp: s_def)
    then have "sublist (followup_error_line e') (join_nl (final_text s))"
      by (rule sublist_join_nl)
    then show ?thesis
      by (simp add: followup_error_line_def)
  qed
  have "called (trace s) = called (trace s0) @ decoded_calls env (tool_calls_of message)"
    unfolding s_def using sess by (rule openai_loop_called)
  then have c1: "called (trace s) = decoded_calls env (tool_calls_of message)"
    by (simp add: tr0)
  have "balance (trace s0) (trace s)"
    unfolding s_def using sess oai by (rule openai_loop_balance)
  then have c2: "length (filter is_provider_call (trace s)) = 1 + length (filter succeeded (trace s))"
    by (simp add: balance_def tr0)
  show "\<exists>text. returned (fst (process_query env c query w)) = Inr text
          \<and> (\<forall>ms ts e'. OpenAICreate ms ts (Inl e') \<in> set (events (fst (process_query env c query w)))
                \<longrightarrow> sublist (''[Error getting response after tool call: '' @ str_exn e' @ '']'') text)"
    using out visible by simp
  show "called (events (fst (process_query env c query w))) = decoded_calls env (tool_calls_of message)"
    using out c1 by simp
  show "length (filter is_provider_call (events (fst (process_query env c query w))))
            = 1 + length (filter succeeded (events (fst (process_query env c query w))))"
    using out c2 by simp
qed

theorem provider_failure_first_or_followup_witness:
  "returned (fst (process_query scripted claude_client ''q''
       \<lparr>a_answers = [Inl (ExternalError ''rate limit'')], o_answers = [], tool_answers = []\<rparr>))
     = Inl (ExternalError ''rate limit'')
   \<and> (\<exists>text. returned (fst (process_query scripted claude_client ''q'' failed_followup_script)) = Inr text
         \<and> sublist ''[Error getting response after tool call: rate limit]'' text)
   \<and> called (events (fst (process_query scripted claude_client ''q'' failed_followup_script)))
     = [(''get_weather'', paris), (''get_weather'', JObj [])]
   \<and> returned (fst (process_query scripted gpt_client ''q''
       \<lparr>a_answers = [], o_answers = [Inl (ExternalError ''rate limit'')], tool_answers = []\<rparr>))
     = Inl (ExternalError ''rate limit'')
   \<and> (\<exists>text. returned (fst (process_query scripted gpt_client ''q'' failed_followup_script)) = Inr text
         \<and> sublist ''[Error getting response after tool call: rate limit]'' text)
   \<and> called (events (fst (process_query scripted gpt_client ''q'' failed_followup_script)))
     = [(''get_weather'', paris), (''get_weather'', JObj [])]"
proof -
  have a: "session claude_client = Some 1
      \<and> list_tools scripted 1 \<lparr>a_answers = [Inl (ExternalError ''rate limit'')], o_answers = [], tool_answers = []\<rparr>
          = (Inr [weather_tool], \<lparr>a_answers = [Inl (ExternalError ''rate limit'')], o_answers = [], tool_answers = []\<rparr>)
      \<and> provider claude_client = ANTHROPIC
      \<and> anthropic claude_client = Some ''key-a''
      \<and> anthropic_create scripted ''key-a'' (full_model_name claude_client) [AUserText ''q'']
           (anthropic_tools [weather_tool])
           \<lparr>a_answers = [Inl (ExternalError ''rate limit'')], o_answers = [], tool_answers = []\<rparr>
         = (Inl (ExternalError ''rate limit''), \<lparr>a_answers = [], o_answers = [], tool_answers = []\<rparr>)"
    by (simp add: scripted_def claude_client_def)
  have b: "session claude_client = Some 1
      \<and> list_tools scripted 1 failed_followup_script = (Inr [weather_tool], failed_followup_script)
      \<and> provider claude_client = ANTHROPIC
      \<and> anthropic claude_client = Some ''key-a''
      \<and> anthropic_create scripted ''key-a'' (full_model_name claude_client) [AUserText ''q'']
           (anthropic_tools [weather_tool]) failed_followup_script
         = (Inr two_tools_blocks,
            failed_followup_script\<lparr>a_answers :=
              [Inl (ExternalError ''rate limit''), Inr [TextBlock ''Rain in Oslo.'']]\<rparr>)"
    by (simp add: scripted_def claude_client_def failed_followup_script_def two_tools_blocks_def)
  have a': "session gpt_client = Some 1
      \<and> list_tools scripted 1 \<lparr>a_answers = [], o_answers = [Inl (ExternalError ''rate limit'')], tool_answers = []\<rparr>
          = (Inr [weather_tool], \<lparr>a_answers = [], o_answers = [Inl (ExternalError ''rate limit'')], tool_answers = []\<rparr>)
      \<and> provider gpt_client = OPENAI
      \<and> openai gpt_client = Some ''key-o''
      \<and> openai_create scripted ''key-o'' (full_model_name gpt_client) [OUser ''q'']
           (Some (openai_tools [weather_tool]))
           \<lparr>a_answers = [], o_answers = [Inl (ExternalError ''rate limit'')], tool_answers = []\<rparr>
         = (Inl (ExternalError ''rate limit''), \<lparr>a_answers = [], o_answers = [], tool_answers = []\<rparr>)"
    by (simp add: scripted_def gpt_client_def)
  have b': "session gpt_client = Some 1
      \<and> list_tools scripted 1 failed_followup_script = (Inr [weather_tool], failed_followup_script)
      \<and> provider gpt_client = OPENAI
      \<and> openai gpt_client = Some ''key-o''
      \<and> openai_create scripted ''key-o'' (full_model_name gpt_client) [OUser ''q'']
           (Some (openai_tools [weather_tool])) failed_followup_script
         = (Inr (OReply None (Some [ToolCall ''c1'' ''get_weather'' paris_arguments,
                                    ToolCall ''c3'' ''get_weather'' ''{}'']) # []),
            failed_followup_script\<lparr>o_answers :=
              [Inl (ExternalError ''rate limit''), Inr [OReply (Some ''Rain in Oslo.'') None]]\<rparr>)"
    by (simp add: scripted_def gpt_client_def failed_followup_script_def)
  have first: "returned (fst (process_query scripted claude_client ''q''
       \<lparr>a_answers = [Inl (ExternalError ''rate limit'')], o_answers = [], tool_answers = []\<rparr>))
     = Inl (ExternalError ''rate limit'')"
    using provider_failure_first_or_followup [THEN conjunct1, THEN mp, OF a] by simp
  have first': "returned (fst (process_query scripted gpt_client ''q''
       \<lparr>a_answers = [], o_answers = [Inl (ExternalError ''rate limit'')], tool_answers = []\<rparr>))
     = Inl (ExternalError ''rate limit'')"
    using provider_failure_first_or_followup [THEN conjunct2, THEN conjunct2, THEN conjunct1, THEN mp, OF a']
    by simp
  note A = provider_failure_first_or_followup [THEN conjunct2, THEN conjunct1, THEN mp, OF b]
  note B = provider_failure_first_or_followup [THEN conjunct2, THEN conjunct2, THEN conjunct2, THEN mp, OF b']
  obtain out where out: "returned (fst (process_query scripted claude_client ''q'' failed_followup_script)) = Inr out"
    and visible: "\<And>ms ts e'. AnthropicCreate ms ts (Inl e')
            \<in> set (events (fst (process_query scripted claude_client ''q'' failed_followup_script)))
          \<Longrightarrow> sublist (''[Error getting response after tool call: '' @ str_exn e' @ '']'') out"
    using A [THEN conjunct1] by blast
  have "AnthropicCreate
          [AUserText ''q'',
           AAssistant [TextBlock ''Let me check.'', ToolUseBlock ''t1'' ''get_weather'' paris],
           AToolResult ''t1'' ''sunny'']
          (anthropic_tools [weather_tool]) (Inl (ExternalError ''rate limit''))
        \<in> set (events (fst (process_query scripted claude_client ''q'' failed_followup_script)))"
    by (simp add: failed_followup_run_anthropic)
  then have "sublist (''[Error getting response after tool call: '' @ str_exn (ExternalError ''rate limit'') @ '']'') out"
    by (rule visible)
  then have seen: "sublist ''[Error getting response after tool call: rate limit]'' out"
    by simp
  have all: "called (events (fst (process_query scripted claude_client ''q'' failed_followup_script)))
     = [(''get_weather'', paris), (''get_weather'', JObj [])]"
    using A [THEN conjunct2, THEN conjunct1] by (simp add: two_tools_blocks_def)
  obtain out' where out': "returned (fst (process_query scripted gpt_client ''q'' failed_followup_script)) = Inr out'"
    and visible': "\<And>ms ts e'. OpenAICreate ms ts (Inl e')
            \<in> set (events (fst (process_query scripted gpt_client ''q'' failed_followup_script)))
          \<Longrightarrow> sublist (''[Error getting response after tool call: '' @ str_exn e' @ '']'') out'"
    using B [THEN conjunct1] by blast
  have "OpenAICreate
          [OUser ''q'', OAssistantToolCall ''c1'' ''get_weather'' paris_arguments, OTool ''c1'' ''sunny'']
          None (Inl (ExternalError ''rate limit''))
        \<in> set (events (fst (process_query scripted gpt_client ''q'' failed_followup_script)))"
    by (simp add: failed_followup_run_openai)
  then have "sublist (''[Error getting response after tool call: '' @ str_exn (ExternalError ''rate limit'') @ '']'') out'"
    by (rule visible')
  then have seen': "sublist ''[Error getting response after tool call: rate limit]'' out'"
    by simp
  have all': "called (events (fst (process_query scripted gpt_client ''q'' failed_followup_script)))
     = [(''get_weather'', paris), (''get_weather'', JObj [])]"
    using B [THEN conjunct2, THEN conjunct1]
    by (simp add: tool_calls_of_def scripted_def paris_arguments_def)
  show ?thesis
    using first first' out seen all out' seen' all' by blast
qed

text \<open>
  The claim as stated fails: the query does not end at the failed follow-up call. In both
  runs below the follow-up call after the first tool execution fails; the loop then
  executes the second tool and calls the provider once more, and the text returned goes on
  after the error line.
\<close>

theorem query_goes_on_after_failed_followup:
  "events (fst (process_query scripted claude_client ''q'' failed_followup_script)) =
     [ListTools (Inr [weather_tool]),
      AnthropicCreate [AUserText ''q''] (anthropic_tools [weather_tool]) (Inr two_tools_blocks),
      CallTool ''get_weather'' paris (Inr [Some ''sunny'']),
      AnthropicCreate
        [AUserText ''q'',
         AAssistant [TextBlock ''Let me check.'', ToolUseBlock ''t1'' ''get_weather'' paris],
         AToolResult ''t1'' ''sunny'']
        (anthropic_tools [weather_tool]) (Inl (ExternalError ''rate limit'')),
      CallTool ''get_weather'' (JObj []) (Inr [Some ''rain'']),
      AnthropicCreate
        [AUserText ''q'',
         AAssistant two_tools_blocks, AToolResult ''t1'' ''sunny'',
         AAssistant two_tools_blocks, AToolResult ''t2'' ''rain'']
        (anthropic_tools [weather_tool]) (Inr [TextBlock ''Rain in Oslo.''])]
   \<and> returned (fst (process_query scripted claude_client ''q'' failed_followup_script)) =
       Inr (join_nl
         [''Let me check.'',
          calling_line scripted ''get_weather'' paris, result_line ''sunny'',
          ''[Error getting response after tool call: rate limit]'',
          calling_line scripted ''get_weather'' (JObj []), result_line ''rain'',
          ''Rain in Oslo.''])
   \<and> events (fst (process_query scripted gpt_client ''q'' failed_followup_script)) =
     [ListTools (Inr [weather_tool]),
      OpenAICreate [OUser ''q''] (Some (openai_tools [weather_tool]))
        (Inr [OReply None (Some [ToolCall ''c1'' ''get_weather'' paris_arguments,
                                 ToolCall ''c3'' ''get_weather'' ''{}''])]),
      CallTool ''get_weather'' paris (Inr [Some ''sunny'']),
      OpenAICreate
        [OUser ''q'', OAssistantToolCall ''c1'' ''get_weather'' paris_arguments, OTool ''c1'' ''sunny'']
        None (Inl (ExternalError ''rate limit'')),
      CallTool ''get_weather'' (JObj []) (Inr [Some ''rain'']),
      OpenAICreate
        [OUser ''q'', OAssistantToolCall ''c1'' ''get_weather'' paris_arguments, OTool ''c1'' ''sunny'',
         OAssistantToolCall ''c3'' ''get_weather'' ''{}'', OTool ''c3'' ''rain'']
        None (Inr [OReply (Some ''Rain in Oslo.'') None])]
   \<and> returned (fst (process_query scripted gpt_client ''q'' failed_followup_script)) =
       Inr (join_nl
         [calling_line scripted ''get_weather'' paris, result_line ''sunny'',
          ''[Error getting response after tool call: rate limit]'',
          calling_line scripted ''get_weather'' (JObj []), result_line ''rain'',
          ''Rain in Oslo.''])"
  by (simp add: failed_followup_run_anthropic failed_followup_run_openai followup_error_line_def)

subsection \<open>The conversation of a query\<close>

lemma process_anthropic_run_messages:
  "prefix [RUserText query] (messages (snd (process_anthropic_run env c query tools wt)))"
proof -
  obtain r w1 tr1 where first:
    "anthropic_messages_create env c [AUserText query] (anthropic_tools tools) wt = (r, w1, tr1)"
    by (metis prod_cases3)
  show ?thesis
  proof (cases r)
    case (Inl e)
    then show ?thesis
      using first by (simp add: process_anthropic_run_def resolve_def Let_def)
  next
    case (Inr blocks)
    have grows: "prefix [RUserText query] (messages (anthropic_loop env c ts bs s0))"
      if "messages s0 = [RUserText query]" for ts bs and s0 :: "(a_entry, 'a) anthropic_state"
      using that anthropic_loop_messages_prefix [of s0 env c ts bs] by simp
    show ?thesis
      using first Inr grows by (simp add: process_anthropic_run_def resolve_def Let_def)
  qed
qed

lemma process_openai_run_messages:
  "prefix [OUser query] (messages (snd (process_openai_run env c query tools wt)))"
proof -
  obtain r w1 tr1 where first: "openai_chat_create env c [OUser query] (Some (openai_tools tools)) wt = (r, w1, tr1)"
    by (metis prod_cases3)
  show ?thesis
  proof (cases r)
    case (Inl e)
    then show ?thesis
      using first by (simp add: process_openai_run_def Let_def)
  next
    case (Inr replies)
    show ?thesis
    proof (cases replies)
      case Nil
      then show ?thesis
        using first Inr by (simp add: process_openai_run_def Let_def)
    next
      case (Cons message rest)
      have grows: "prefix [OUser query] (messages (openai_loop env c tcs s0))"
        if "messages s0 = [OUser query]" for tcs and s0 :: "(o_message, 'a) query_state"
        using that openai_loop_messages_prefix [of s0 env c tcs] by simp
      show ?thesis
        using first Inr Cons grows
        by (auto simp: process_openai_run_def Let_def split: option.splits)
    qed
  qed
qed

lemma process_query_anthropic_first_call:
  assumes "session c = Some sid" and "list_tools env sid w = (Inr tools, w1)"
    and "provider c = ANTHROPIC" and "anthropic c = Some key"
    and "anthropic_create env key (full_model_name c) [AUserText query] (anthropic_tools tools) w1 = (r, w2)"
  shows "prefix [ListTools (Inr tools), AnthropicCreate [AUserText query] (anthropic_tools tools) r]
           (events (fst (process_query env c query w)))"
proof (cases r)
  case (Inl e)
  then show ?thesis
    using assms process_anthropic_query_first_failed [of c key env query tools w1 e w2 "[ListTools (Inr tools)]"]
    by (simp add: process_query_def)
next
  case (Inr blocks)
  define s0 :: "(a_entry, 'a) anthropic_state" where
    "s0 = \<lparr>messages = [RUserText query], final_text = [], world = w2,
           trace = [ListTools (Inr tools)] @ [AnthropicCreate [AUserText query] (anthropic_tools tools) (Inr blocks)],
           assistant_message_content = []\<rparr>"
  have run: "process_anthropic_run env c query tools (w1, [ListTools (Inr tools)]) =
      (None, anthropic_loop env c (anthropic_tools tools) blocks s0)"
    using assms Inr process_anthropic_query_first_ok [of c key env query tools w1 blocks w2 "[ListTools (Inr tools)]"]
    by (simp add: s0_def)
  have "events (fst (process_query env c query w)) = trace (anthropic_loop env c (anthropic_tools tools) blocks s0)"
    using assms run by (simp add: process_query_def process_anthropic_query_def finish_def)
  moreover have "prefix (trace s0) (trace (anthropic_loop env c (anthropic_tools tools) blocks s0))"
    by (rule anthropic_loop_trace_prefix)
  ultimately show ?thesis
    using Inr by (simp add: s0_def)
qed

lemma process_query_openai_first_call:
  assumes "session c = Some sid" and "list_tools env sid w = (Inr tools, w1)"
    and "provider c = OPENAI" and "openai c = Some key"
    and "openai_create env key (full_model_name c) [OUser query] (Some (openai_tools tools)) w1 = (r, w2)"
  shows "prefix [ListTools (Inr tools), OpenAICreate [OUser query] (Some (openai_tools tools)) r]
           (events (fst (process_query env c query w)))"
proof (cases r)
  case (Inl e)
  then show ?thesis
    using assms process_openai_query_first_failed [of c key env query tools w1 e w2 "[ListTools (Inr tools)]"]
    by (simp add: process_query_def)
next
  case (Inr replies)
  show ?thesis
  proof (cases replies)
    case Nil
    then show ?thesis
      using assms Inr
      by (simp add: process_query_def process_openai_query_def process_openai_run_def finish_def
          openai_chat_create_def Let_def)
  next
    case (Cons message rest)
    define s0 :: "(o_message, 'a) query_state" where
      "s0 = \<lparr>messages = [OUser query],
             final_text = (if or_empty (content message) \<noteq> [] then [or_empty (content message)] else []),
             world = w2,
             trace = [ListTools (Inr tools)] @
                     [OpenAICreate [OUser query] (Some (openai_tools tools)) (Inr (message # rest))]\<rparr>"
    have run: "process_openai_run env c query tools (w1, [ListTools (Inr tools)]) =
        (None, openai_loop env c (tool_calls_of message) s0)"
      using assms Inr Cons
        process_openai_query_first_ok [of c key env query tools w1 message rest w2 "[ListTools (Inr tools)]"]
      by (simp add: s0_def)
    have "events (fst (process_query env c query w)) = trace (openai_loop env c (tool_calls_of message) s0)"
      using assms run by (simp add: process_query_def process_openai_query_def finish_def)
    moreover have "prefix (trace s0) (trace (openai_loop env c (tool_calls_of message) s0))"
      by (rule openai_loop_trace_prefix)
    ultimately show ?thesis
      using Inr Cons by (simp add: s0_def)
  qed
qed

text \<open>
  Whatever the client and the world are when \<open>process_query\<close> is called, the first provider
  call of the query is sent the conversation made of the one user turn with the new query,
  and the list \<open>messages\<close> starts as that one turn and only grows by entries appended at
  its end. For provider A these are the entries of the list: its assistant entries all
  refer to the one list \<open>assistant_message_content\<close>.
\<close>

lemma first_call_sent_user_turn_only:
  "(session c = Some sid \<and> list_tools env sid w = (Inr tools, w1) \<and> provider c = ANTHROPIC
      \<and> anthropic c = Some key
      \<and> anthropic_create env key (full_model_name c) [AUserText query] (anthropic_tools tools) w1 = (r, w2)
    \<longrightarrow> prefix [ListTools (Inr tools), AnthropicCreate [AUserText query] (anthropic_tools tools) r]
          (events (fst (process_query env c query w))))
   \<and> (session c = Some sid \<and> list_tools env sid w = (Inr tools, w1) \<and> provider c = OPENAI
      \<and> openai c = Some key
      \<and> openai_create env key (full_model_name c) [OUser query] (Some (openai_tools tools)) w1 = (r', w2)
    \<longrightarrow> prefix [ListTools (Inr tools), OpenAICreate [OUser query] (Some (openai_tools tools)) r']
          (events (fst (process_query env c query w))))"
  using process_query_anthropic_first_call [of c sid env w tools w1 key query r w2]
        process_query_openai_first_call [of c sid env w tools w1 key query r' w2]
  by blast

lemma messages_entries_only_appended:
  "prefix [RUserText query] (messages (snd (process_anthropic_run env c query tools wt)))
   \<and> prefix (messages s) (messages (anthropic_loop env c ts bs s))
   \<and> prefix [OUser query] (messages (snd (process_openai_run env c query tools wt)))
   \<and> prefix (messages t) (messages (openai_loop env c tcs t))"
  using process_anthropic_run_messages [of query env c tools wt]
        process_openai_run_messages [of query env c tools wt]
        anthropic_loop_messages_prefix [of s env c ts bs]
        openai_loop_messages_prefix [of t env c tcs]
  by blast

text \<open>
  Claim C7 at a response of provider A with two tool requests that both succeed. The
  first provider call is sent the one user turn. The second provider call is sent three
  turns, whose assistant turn holds the text and the request \<open>t1\<close>. The third provider
  call is sent five turns, and the assistant turn in second place now holds the request
  \<open>t2\<close> as well: a turn that was in the conversation already has been changed, and the
  conversation sent before is not a prefix of the conversation sent after. In provider B's
  loop every conversation sent is the one sent before it extended at its end
  (\<open>openai_loop_rounds\<close>).
\<close>

theorem earlier_assistant_turn_rewritten:
  "events (fst (process_query scripted claude_client ''q'' two_tools_script)) =
     [ListTools (Inr [weather_tool]),
      AnthropicCreate [AUserText ''q''] (anthropic_tools [weather_tool])
        (Inr [TextBlock ''Let me check.'',
              ToolUseBlock ''t1'' ''get_weather'' paris,
              ToolUseBlock ''t2'' ''get_weather'' (JObj [])]),
      CallTool ''get_weather'' paris (Inr [Some ''sunny'']),
      AnthropicCreate
        [AUserText ''q'',
         AAssistant [TextBlock ''Let me check.'', ToolUseBlock ''t1'' ''get_weather'' paris],
         AToolResult ''t1'' ''sunny'']
        (anthropic_tools [weather_tool]) (Inr [TextBlock ''Sunny in Paris.'']),
      CallTool ''get_weather'' (JObj []) (Inr [Some ''rain'']),
      AnthropicCreate
        [AUserText ''q'',
         AAssistant [TextBlock ''Let me check.'',
                     ToolUseBlock ''t1'' ''get_weather'' paris,
                     ToolUseBlock ''t2'' ''get_weather'' (JObj [])],
         AToolResult ''t1'' ''sunny'',
         AAssistant [TextBlock ''Let me check.'',
                     ToolUseBlock ''t1'' ''get_weather'' paris,
                     ToolUseBlock ''t2'' ''get_weather'' (JObj [])],
         AToolResult ''t2'' ''rain'']
        (anthropic_tools [weather_tool]) (Inl (ExternalError ''rate limit''))]
   \<and> \<not> prefix
        [AUserText ''q'',
         AAssistant [TextBlock ''Let me check.'', ToolUseBlock ''t1'' ''get_weather'' paris],
         AToolResult ''t1'' ''sunny'']
        [AUserText ''q'',
         AAssistant [TextBlock ''Let me check.'',
                     ToolUseBlock ''t1'' ''get_weather'' paris,
                     ToolUseBlock ''t2'' ''get_weather'' (JObj [])],
         AToolResult ''t1'' ''sunny'',
         AAssistant [TextBlock ''Let me check.'',
                     ToolUseBlock ''t1'' ''get_weather'' paris,
                     ToolUseBlock ''t2'' ''get_weather'' (JObj [])],
         AToolResult ''t2'' ''rain'']"
  by (simp add: two_tools_query two_tools_run finish_def two_tools_blocks_def)

subsection \<open>Switching the provider\<close>

lemma split_not_Nil: "split sep s \<noteq> []"
  by (induction s) (auto split: list.splits)

lemma use_is_not_quit: "startswith s ''use '' \<Longrightarrow> s \<noteq> ''quit''"
  by (auto simp: startswith_def)

lemma init_client_adapters:
  "init_client env np nm = Inr nc \<Longrightarrow>
     anthropic nc = (if np = ANTHROPIC then environ env ''ANTHROPIC_API_KEY'' else None)
     \<and> openai nc = (if np = OPENAI then environ env ''OPENAI_API_KEY'' else None)
     \<and> truthy (if np = ANTHROPIC then anthropic nc else openai nc)"
  by (cases np) (auto simp: init_client_def Let_def split: if_splits)

lemma process_query_client: "snd (process_query env c query w) = c"
  by (simp add: process_query_def split: option.splits prod.splits sum.splits)

lemma query_turn_client:
  "control (query_turn env c w query) = Continue \<and> client_after (query_turn env c w query) = c"
  using process_query_client [of env c query w]
  by (cases "process_query env c query w") (simp add: query_turn_def)

lemma chat_turn_use:
  assumes "startswith (lower (strip line)) ''use ''"
  shows "chat_turn env line c w =
           (case switch_provider env c w (strip line) of
              Some t \<Rightarrow> t
            | None \<Rightarrow> query_turn env c w (strip line))"
  using assms use_is_not_quit [OF assms] by (simp add: chat_turn_def Let_def)

lemma switch_provider_unsupported:
  assumes "split CHR '':'' (strip (drop 4 query)) = part0 # parts1"
    and "lower (strip part0) \<notin> set [''openai'', ''anthropic'']"
  shows "switch_provider env c w query =
           Some \<lparr>control = Continue, client_after = c, turn_world = w,
                 printed = [''Unsupported provider: '' @ lower (strip part0) @ ''. Use '' @ quoted ''openai''
                              @ '' or '' @ quoted ''anthropic'' @ ''.''],
                 turn_events = []\<rparr>"
  using assms by (simp add: switch_provider_def Let_def)

lemma switch_provider_same:
  assumes "split CHR '':'' (strip (drop 4 query)) = part0 # parts1"
    and "lower (strip part0) \<in> set [''openai'', ''anthropic'']"
    and "np = (if lower (strip part0) = ''openai'' then OPENAI else ANTHROPIC)"
    and "nm = (case parts1 of [] \<Rightarrow> None | part1 # others \<Rightarrow> Some (strip part1))"
    and "\<not> (np \<noteq> provider c \<or> truthy nm \<and> nm \<noteq> model_name c)"
  shows "switch_provider env c w query = None"
  using assms unfolding switch_provider_def Let_def by auto

lemma switch_provider_switch:
  assumes "split CHR '':'' (strip (drop 4 query)) = part0 # parts1"
    and "lower (strip part0) \<in> set [''openai'', ''anthropic'']"
    and "np = (if lower (strip part0) = ''openai'' then OPENAI else ANTHROPIC)"
    and "nm = (case parts1 of [] \<Rightarrow> None | part1 # others \<Rightarrow> Some (strip part1))"
    and "np \<noteq> provider c \<or> truthy nm \<and> nm \<noteq> model_name c"
  shows "switch_provider env c w query =
           (case init_client env np nm of
              Inl e \<Rightarrow>
                Some \<lparr>control = Continue, client_after = c, turn_world = w,
                      printed = [''Error switching model: '' @ str_exn e], turn_events = []\<rparr>
            | Inr nc \<Rightarrow>
                Some \<lparr>control = Continue,
                      client_after =
                        c\<lparr>provider := np, model_name := nm,
                          full_model_name :=
                            get_or_self (if np = ANTHROPIC then ANTHROPIC_MODELS else OPENAI_MODELS) nm,
                          anthropic := (if np = ANTHROPIC then environ env ''ANTHROPIC_API_KEY'' else None),
                          openai := (if np = OPENAI then environ env ''OPENAI_API_KEY'' else None)\<rparr>,
                      turn_world = w,
                      printed = [''Switched to '' @ show_provider env np @ '' with model '' @
                                 none_text (get_or_self
                                   (if np = ANTHROPIC then ANTHROPIC_MODELS else OPENAI_MODELS) nm)],
                      turn_events = []\<rparr>)"
proof (cases "init_client env np nm")
  case (Inl e)
  then show ?thesis
    using assms unfolding switch_provider_def Let_def by auto
next
  case (Inr nc)
  show ?thesis
    using assms Inr init_client_adapters [OF Inr] unfolding switch_provider_def Let_def
    by (cases "lower (strip part0) = ''openai''") auto
qed

text \<open>
  Claim C6. A turn of the chat loop on a line \<open>use <provider>[:<model>]\<close> leaves the session
  and the server path of the client as they are and continues the loop. With a provider
  string other than \<open>openai\<close> and \<open>anthropic\<close> the client is unchanged, the error line is
  printed and no external call is made. When the provider or the model differs from the
  active one, no external call is made either (no reconnection, no listing of tools): if
  the new SDK client can be built, the provider, the model name, the model identifier (the
  table's entry, or the name itself) and the two SDK clients are replaced, the new
  provider's client carrying the key of the environment, and the switch is printed; if it
  cannot be built the client is unchanged and the error is printed. When neither provider
  nor model differs, nothing is switched: the line is handled as a query, by the client as
  it is.
\<close>

theorem switch_keeps_connection:
  "startswith (lower (strip line)) ''use ''
     \<and> split CHR '':'' (strip (drop 4 (strip line))) = part0 # parts1
     \<and> np = (if lower (strip part0) = ''openai'' then OPENAI else ANTHROPIC)
     \<and> nm = (case parts1 of [] \<Rightarrow> None | part1 # others \<Rightarrow> Some (strip part1))
     \<and> t = chat_turn env line c w
   \<longrightarrow> control t = Continue
       \<and> session (client_after t) = session c
       \<and> server_path (client_after t) = server_path c
       \<and> (lower (strip part0) \<notin> set [''openai'', ''anthropic'']
            \<longrightarrow> client_after t = c \<and> turn_world t = w \<and> turn_events t = []
              \<and> printed t = [''Unsupported provider: '' @ lower (strip part0) @ ''. Use '' @ quoted ''openai''
                                @ '' or '' @ quoted ''anthropic'' @ ''.''])
       \<and> (lower (strip part0) \<in> set [''openai'', ''anthropic'']
            \<and> (np \<noteq> provider c \<or> truthy nm \<and> nm \<noteq> model_name c)
            \<longrightarrow> turn_world t = w \<and> turn_events t = []
              \<and> (case init_client env np nm of
                   Inl e \<Rightarrow> client_after t = c \<and> printed t = [''Error switching model: '' @ str_exn e]
                 | Inr nc \<Rightarrow>
                     client_after t =
                       c\<lparr>provider := np, model_name := nm,
                         full_model_name :=
                           get_or_self (if np = ANTHROPIC then ANTHROPIC_MODELS else OPENAI_MODELS) nm,
                         anthropic := (if np = ANTHROPIC then environ env ''ANTHROPIC_API_KEY'' else None),
                         openai := (if np = OPENAI then environ env ''OPENAI_API_KEY'' else None)\<rparr>
                     \<and> printed t =
                         [''Switched to '' @ show_provider env np @ '' with model '' @
                          none_text (get_or_self
                            (if np = ANTHROPIC then ANTHROPIC_MODELS else OPENAI_MODELS) nm)]))
       \<and> (lower (strip part0) \<in> set [''openai'', ''anthropic'']
            \<and> \<not> (np \<noteq> provider c \<or> truthy nm \<and> nm \<noteq> model_name c)
            \<longrightarrow> client_after t = c \<and> t = query_turn env c w (strip line))"
proof (intro impI)
  assume h: "startswith (lower (strip line)) ''use ''
     \<and> split CHR '':'' (strip (drop 4 (strip line))) = part0 # parts1
     \<and> np = (if lower (strip part0) = ''openai'' then OPENAI else ANTHROPIC)
     \<and> nm = (case parts1 of [] \<Rightarrow> None | part1 # others \<Rightarrow> Some (strip part1))
     \<and> t = chat_turn env line c w"
  have use: "startswith (lower (strip line)) ''use ''" using h by blast
  have parts: "split CHR '':'' (strip (drop 4 (strip line))) = part0 # parts1" using h by blast
  have np: "np = (if lower (strip part0) = ''openai'' then OPENAI else ANTHROPIC)" using h by blast
  have nm: "nm = (case parts1 of [] \<Rightarrow> None | part1 # others \<Rightarrow> Some (strip part1))" using h by blast
  have "t = chat_turn env line c w" using h by blast
  then have t: "t = (case switch_provider env c w (strip line) of
                       Some t' \<Rightarrow> t'
                     | None \<Rightarrow> query_turn env c w (strip line))"
    using chat_turn_use [OF use] by simp
  show "control t = Continue
       \<and> session (client_after t) = session c
       \<and> server_path (client_after t) = server_path c
       \<and> (lower (strip part0) \<notin> set [''openai'', ''anthropic'']
            \<longrightarrow> client_after t = c \<and> turn_world t = w \<and> turn_events t = []
              \<and> printed t = [''Unsupported provider: '' @ lower (strip part0) @ ''. Use '' @ quoted ''openai''
                                @ '' or '' @ quoted ''anthropic'' @ ''.''])
       \<and> (lower (strip part0) \<in> set [''openai'', ''anthropic'']
            \<and> (np \<noteq> provider c \<or> truthy nm \<and> nm \<noteq> model_name c)
            \<longrightarrow> turn_world t = w \<and> turn_events t = []
              \<and> (case init_client env np nm of
                   Inl e \<Rightarrow> client_after t = c \<and> printed t = [''Error switching model: '' @ str_exn e]
                 | Inr nc \<Rightarrow>
                     client_after t =
                       c\<lparr>provider := np, model_name := nm,
                         full_model_name :=
                           get_or_self (if np = ANTHROPIC then ANTHROPIC_MODELS else OPENAI_MODELS) nm,
                         anthropic := (if np = ANTHROPIC then environ env ''ANTHROPIC_API_KEY'' else None),
                         openai := (if np = OPENAI then environ env ''OPENAI_API_KEY'' else None)\<rparr>
                     \<and> printed t =
                         [''Switched to '' @ show_provider env np @ '' with model '' @
                          none_text (get_or_self
                            (if np = ANTHROPIC then ANTHROPIC_MODELS else OPENAI_MODELS) nm)]))
       \<and> (lower (strip part0) \<in> set [''openai'', ''anthropic'']
            \<and> \<not> (np \<noteq> provider c \<or> truthy nm \<and> nm \<noteq> model_name c)
            \<longrightarrow> client_after t = c \<and> t = query_turn env c w (strip line))"
  proof (cases "lower (strip part0) \<in> set [''openai'', ''anthropic'']")
    case False
    have "t = \<lparr>control = Continue, client_after = c, turn_world = w,
               printed = [''Unsupported provider: '' @ lower (strip part0) @ ''. Use '' @ quoted ''openai''
                            @ '' or '' @ quoted ''anthropic'' @ ''.''],
               turn_events = []\<rparr>"
      unfolding t using switch_provider_unsupported [OF parts False, where env = env and c = c and w = w] by simp
    then show ?thesis
      using False by auto
  next
    case known: True
    show ?thesis
    proof (cases "np \<noteq> provider c \<or> truthy nm \<and> nm \<noteq> model_name c")
      case False
      have "t = query_turn env c w (strip line)"
        unfolding t using switch_provider_same [OF parts known np nm False, where env = env and w = w] by simp
      then show ?thesis
        using known False query_turn_client [of env c w "strip line"] by auto
    next
      case switch: True
      note sw = switch_provider_switch [OF parts known np nm switch, where env = env and w = w]
      show ?thesis
      proof (cases "init_client env np nm")
        case (Inl e)
        have "t = \<lparr>control = Continue, client_after = c, turn_world = w,
                   printed = [''Error switching model: '' @ str_exn e], turn_events = []\<rparr>"
          unfolding t using sw Inl by simp
        then show ?thesis
          using known switch Inl by auto
      next
        case (Inr nc)
        have "t = \<lparr>control = Continue,
                   client_after =
                     c\<lparr>provider := np, model_name := nm,
                       full_model_name :=
                         get_or_self (if np = ANTHROPIC then ANTHROPIC_MODELS else OPENAI_MODELS) nm,
                       anthropic := (if np = ANTHROPIC then environ env ''ANTHROPIC_API_KEY'' else None),
                       openai := (if np = OPENAI then environ env ''OPENAI_API_KEY'' else None)\<rparr>,
                   turn_world = w,
                   printed = [''Switched to '' @ show_provider env np @ '' with model '' @
                              none_text (get_or_self
                                (if np = ANTHROPIC then ANTHROPIC_MODELS else OPENAI_MODELS) nm)],
                   turn_events = []\<rparr>"
          unfolding t using sw Inr by simp
        then show ?thesis
          using known switch Inr by auto
      qed
    qed
  qed
qed

theorem switch_keeps_connection_witness:
  "client_after (chat_turn scripted ''  USE OpenAI : gpt-4 '' claude_client followup_script) =
     claude_client\<lparr>provider := OPENAI, model_name := Some ''gpt-4'', full_model_name := Some ''gpt-4o'',
       anthropic := None, openai := Some ''key-o''\<rparr>
   \<and> session (client_after (chat_turn scripted ''  USE OpenAI : gpt-4 '' claude_client followup_script)) = Some 1
   \<and> turn_events (chat_turn scripted ''  USE OpenAI : gpt-4 '' claude_client followup_script) = []
   \<and> turn_world (chat_turn scripted ''  USE OpenAI : gpt-4 '' claude_client followup_script) = followup_script
   \<and> client_after (chat_turn scripted ''use mistral'' claude_client followup_script) = claude_client
   \<and> control (chat_turn scripted ''use mistral'' claude_client followup_script) = Continue
   \<and> turn_events (chat_turn scripted ''use mistral'' claude_client followup_script) = []
   \<and> printed (chat_turn scripted ''use mistral'' claude_client followup_script) =
       [''Unsupported provider: mistral. Use '' @ quoted ''openai'' @ '' or '' @ quoted ''anthropic'' @ ''.'']
   \<and> client_after (chat_turn scripted ''use anthropic'' claude_client followup_script) = claude_client
   \<and> chat_turn scripted ''use anthropic'' claude_client followup_script =
       query_turn scripted claude_client followup_script ''use anthropic''"
proof -
  have a: "startswith (lower (strip ''  USE OpenAI : gpt-4 '')) ''use ''
     \<and> split CHR '':'' (strip (drop 4 (strip ''  USE OpenAI : gpt-4 ''))) = ''OpenAI '' # ['' gpt-4'']
     \<and> OPENAI = (if lower (strip ''OpenAI '') = ''openai'' then OPENAI else ANTHROPIC)
     \<and> Some ''gpt-4'' = (case ['' gpt-4''] of [] \<Rightarrow> None | part1 # others \<Rightarrow> Some (strip part1))
     \<and> chat_turn scripted ''  USE OpenAI : gpt-4 '' claude_client followup_script
         = chat_turn scripted ''  USE OpenAI : gpt-4 '' claude_client followup_script"
    by code_simp
  have b: "startswith (lower (strip ''use mistral'')) ''use ''
     \<and> split CHR '':'' (strip (drop 4 (strip ''use mistral''))) = ''mistral'' # []
     \<and> ANTHROPIC = (if lower (strip ''mistral'') = ''openai'' then OPENAI else ANTHROPIC)
     \<and> None = (case [] :: string list of [] \<Rightarrow> None | part1 # others \<Rightarrow> Some (strip part1))
     \<and> chat_turn scripted ''use mistral'' claude_client followup_script
         = chat_turn scripted ''use mistral'' claude_client followup_script"
    by code_simp
  have d: "startswith (lower (strip ''use anthropic'')) ''use ''
     \<and> split CHR '':'' (strip (drop 4 (strip ''use anthropic''))) = ''anthropic'' # []
     \<and> ANTHROPIC = (if lower (strip ''anthropic'') = ''openai'' then OPENAI else ANTHROPIC)
     \<and> None = (case [] :: string list of [] \<Rightarrow> None | part1 # others \<Rightarrow> Some (strip part1))
     \<and> chat_turn scripted ''use anthropic'' claude_client followup_script
         = chat_turn scripted ''use anthropic'' claude_client followup_script"
    by code_simp
  have low: "lower (strip ''OpenAI '') = ''openai''" "lower (strip ''mistral'') = ''mistral''"
      "lower (strip ''anthropic'') = ''anthropic''" "strip ''use anthropic'' = ''use anthropic''"
    by code_simp+
  have init: "init_client scripted OPENAI (Some ''gpt-4'') =
      Inr \<lparr>session = None, server_path = None, provider = OPENAI, model_name = Some ''gpt-4'',
           full_model_name = Some ''gpt-4o'', anthropic = None, openai = Some ''key-o''\<rparr>"
    by code_simp
  have env: "environ scripted ''OPENAI_API_KEY'' = Some ''key-o''"
            "get_or_self OPENAI_MODELS (Some ''gpt-4'') = Some ''gpt-4o''"
    by code_simp+
  note A = switch_keeps_connection [THEN mp, OF a]
  note B = switch_keeps_connection [THEN mp, OF b]
  note D = switch_keeps_connection [THEN mp, OF d]
  show ?thesis
    using A B D low init env query_turn_client [of scripted claude_client followup_script "''use anthropic''"]
    by (simp add: claude_client_def truthy_def)
qed

text \<open>
  A line \<open>use anthropic\<close> while provider A is active with its default model: the tools are
  listed and the line itself is sent to the provider as the query.
\<close>

lemma use_active_provider_is_a_query:
  "turn_events (chat_turn scripted ''use anthropic'' claude_client
       \<lparr>a_answers = [Inr [TextBlock ''Hello.'']], o_answers = [], tool_answers = []\<rparr>) =
     [ListTools (Inr [weather_tool]),
      AnthropicCreate [AUserText ''use anthropic''] (anthropic_tools [weather_tool])
        (Inr [TextBlock ''Hello.''])]
   \<and> printed (chat_turn scripted ''use anthropic'' claude_client
       \<lparr>a_answers = [Inr [TextBlock ''Hello.'']], o_answers = [], tool_answers = []\<rparr>) =
     [newline # ''Hello.'']"
proof -
  have use: "startswith (lower (strip ''use anthropic'')) ''use ''"
    by code_simp
  have parts: "split CHR '':'' (strip (drop 4 (strip ''use anthropic''))) = ''anthropic'' # []"
    by code_simp
  have known: "lower (strip ''anthropic'') \<in> set [''openai'', ''anthropic'']"
    by code_simp
  have np: "ANTHROPIC = (if lower (strip ''anthropic'') = ''openai'' then OPENAI else ANTHROPIC)"
    by code_simp
  have nm: "None = (case [] :: string list of [] \<Rightarrow> None | part1 # others \<Rightarrow> Some (strip part1))"
    by simp
  have same: "\<not> (ANTHROPIC \<noteq> provider claude_client \<or> truthy None \<and> None \<noteq> model_name claude_client)"
    by (simp add: claude_client_def truthy_def)
  have line: "strip ''use anthropic'' = ''use anthropic''"
    by code_simp
  have "chat_turn scripted ''use anthropic'' claude_client w =
          query_turn scripted claude_client w ''use anthropic''" for w
    using chat_turn_use [OF use, of scripted claude_client w]
          switch_provider_same [OF parts known np nm same, where env = scripted and w = w]
    by (simp add: line)
  then show ?thesis
    by (simp add: query_turn_def process_query_def process_anthropic_query_def
        process_anthropic_run_def finish_def anthropic_messages_create_def resolve_def
        scripted_def claude_client_def Let_def)
qed

subsection \<open>Requests and results in the conversation\<close>

lemma paired_append: "paired xs \<Longrightarrow> paired ys \<Longrightarrow> paired (xs @ ys)"
  by (induction xs rule: paired.induct) simp_all

lemma openai_tool_call_pairs:
  "\<exists>new. messages (openai_tool_call env c tc s) = messages s @ new \<and> paired new"
  by (auto simp: openai_tool_call_def Let_def split: prod.splits sum.splits list.splits option.splits)

lemma openai_loop_pairs:
  "\<exists>new. messages (openai_loop env c tcs s) = messages s @ new \<and> paired new"
proof (induction tcs arbitrary: s)
  case Nil
  then show ?case by simp
next
  case (Cons tc tcs)
  obtain new1 where 1: "messages (openai_tool_call env c tc s) = messages s @ new1" "paired new1"
    using openai_tool_call_pairs by blast
  obtain new2 where 2: "messages (openai_loop env c tcs (openai_tool_call env c tc s)) =
      messages (openai_tool_call env c tc s) @ new2" "paired new2"
    using Cons.IH by blast
  have "messages (openai_loop env c (tc # tcs) s) = messages s @ (new1 @ new2)"
    using 1 2 by simp
  moreover have "paired (new1 @ new2)"
    using 1 2 by (simp add: paired_append)
  ultimately show ?case by blast
qed

text \<open>
  Claim C2 at a response of provider A with two tool requests that both succeed: the
  conversation at the end, which is also what the last provider call is sent, holds the
  request \<open>t1\<close> in two assistant turns, and the second of them is followed by the result of
  \<open>t2\<close> only. Provider B's loop appends one request and its result per execution
  (\<open>openai_loop_pairs\<close>).
\<close>

theorem two_tool_uses_repeat_first_request:
  "anthropic_conversation
     (snd (process_anthropic_run scripted claude_client ''q'' [weather_tool]
             (two_tools_script, [ListTools (Inr [weather_tool])]))) =
     [AUserText ''q'',
      AAssistant [TextBlock ''Let me check.'',
                  ToolUseBlock ''t1'' ''get_weather'' paris,
                  ToolUseBlock ''t2'' ''get_weather'' (JObj [])],
      AToolResult ''t1'' ''sunny'',
      AAssistant [TextBlock ''Let me check.'',
                  ToolUseBlock ''t1'' ''get_weather'' paris,
                  ToolUseBlock ''t2'' ''get_weather'' (JObj [])],
      AToolResult ''t2'' ''rain'']
   \<and> last (trace (snd (process_anthropic_run scripted claude_client ''q'' [weather_tool]
             (two_tools_script, [ListTools (Inr [weather_tool])])))) =
     AnthropicCreate
       [AUserText ''q'',
        AAssistant [TextBlock ''Let me check.'',
                    ToolUseBlock ''t1'' ''get_weather'' paris,
                    ToolUseBlock ''t2'' ''get_weather'' (JObj [])],
        AToolResult ''t1'' ''sunny'',
        AAssistant [TextBlock ''Let me check.'',
                    ToolUseBlock ''t1'' ''get_weather'' paris,
                    ToolUseBlock ''t2'' ''get_weather'' (JObj [])],
        AToolResult ''t2'' ''rain'']
       (anthropic_tools [weather_tool]) (Inl (ExternalError ''rate limit''))"
  by (simp add: two_tools_run anthropic_conversation_def resolve_def two_tools_blocks_def)

end
